theory Spec2Isabelle
  imports Complex_Main
begin

section \<open>CLAP audio analyzer service: shared data\<close>

text \<open>
  The service is one Python module, \<^verbatim>\<open>analyzer.py\<close>, with three classes:
  \<^verbatim>\<open>CLAPAnalyzer\<close> (the model wrapper), \<^verbatim>\<open>Worker\<close> (the queue consumer, with
  its \<^verbatim>\<open>DatabaseConnection\<close>) and \<^verbatim>\<open>TextEmbedHandler\<close> (the pub/sub responder).
  The embedding below keeps the method names and the order of their checks.

  What lies outside the module is a parameter of the model:
  \<^item> the CLAP model is a pair of functions that return a list of vectors or raise;
  \<^item> the file system is a predicate \<^verbatim>\<open>os.path.exists\<close>;
  \<^item> the database answers every call of a worker method according to an oracle
    (connection alive, reconnected, or unreachable; statement accepted or rejected;
    rollback done or raising);
  \<^item> the clock (\<^verbatim>\<open>datetime.utcnow()\<close>) and the media root (\<^verbatim>\<open>MUSIC_PATH\<close>)
    are values of an environment record.
  A vector is a list of reals standing for float32 values, on which
  \<^verbatim>\<open>astype(np.float32)\<close> is the identity. Strings are lists of characters; a slice
  \<^verbatim>\<open>s[:n]\<close> is \<open>take n s\<close>.
\<close>

type_synonym vec = "real list"

datatype exn =
    RuntimeError string
  | DatabaseError string
  | IndexError string
  | OtherError string

text \<open>\<^verbatim>\<open>isinstance(e, psycopg2.Error)\<close>, the test of the first handler of the worker loop.\<close>

fun is_psycopg2_error :: "exn \<Rightarrow> bool" where
  "is_psycopg2_error (DatabaseError _) = True"
| "is_psycopg2_error _ = False"

datatype level = INFO | WARNING | ERROR

text \<open>
  A job and a text request after \<^verbatim>\<open>json.loads\<close>. Their fields are strings, as in
  the data model of the service, and \<open>None\<close> stands for a key that is missing; a
  message whose fields have another JSON type is not a value of these records.
\<close>

record job =
  trackId :: "string option"
  filePath :: "string option"

record request =
  requestId :: "string option"
  text_field :: "string option"

datatype log_arg = S string | N nat | E exn | J job

datatype jvalue = JNull | JBool bool | JStr string | JNum real | JArr "jvalue list"

type_synonym jdict = "(string \<times> jvalue) list"

datatype stmt =
    UpdateStatus string string
  | MarkFailed string string
  | Upsert string vec string nat

datatype event =
    Log level string "log_arg list"
  | PrintExc
  | Sleep nat
  | DbReconnect
  | DbExecute stmt
  | DbCommit
  | DbRollback
  | CursorClose
  | EmbedAudio string
  | EmbedText string
  | Publish string jdict

definition TEXT_EMBED_RESPONSE_PREFIX :: string where
  "TEXT_EMBED_RESPONSE_PREFIX = ''audio:text:embed:response:''"

definition MODEL_VERSION :: string where
  "MODEL_VERSION = ''laion-clap-music-v1''"

section \<open>CLAPAnalyzer\<close>

record clap_model =
  get_audio_embedding_from_filelist :: "string list \<Rightarrow> exn + vec list"
  get_text_embedding_from_list :: "string list \<Rightarrow> exn + vec list"

record analyzer =
  model :: "clap_model option"

definition new_analyzer :: analyzer where
  "new_analyzer = \<lparr>model = None\<rparr>"

text \<open>
  \<^verbatim>\<open>load_model\<close>: returns at once when a model is present. Otherwise
  \<^verbatim>\<open>self.model\<close> is assigned the constructed module before the checkpoint is
  loaded, so a failure of \<^verbatim>\<open>load_ckpt\<close> leaves the module in place; every
  exception is logged and raised again. The result is the exception, if any, with the
  analyzer as the call leaves it.
\<close>

definition load_model ::
  "(exn + clap_model) \<Rightarrow> (clap_model \<Rightarrow> exn + clap_model) \<Rightarrow> analyzer \<Rightarrow> exn option \<times> analyzer" where
  "load_model build load_ckpt a =
     (if model a \<noteq> None then (None, a)
      else case build of
             Inl e \<Rightarrow> (Some e, a)
           | Inr m0 \<Rightarrow>
               (case load_ckpt m0 of
                  Inl e \<Rightarrow> (Some e, a\<lparr>model := Some m0\<rparr>)
                | Inr m \<Rightarrow> (None, a\<lparr>model := Some m\<rparr>)))"

text \<open>
  The padding of both embedding methods:
  \<^verbatim>\<open>
  if embedding.shape[0] < 1024:
      padded = np.zeros(1024, dtype=np.float32)
      padded[:embedding.shape[0]] = embedding
      embedding = padded
  return embedding.astype(np.float32)
  \<close>
  A vector of 1024 or more elements is returned as it is.
\<close>

definition pad_embedding :: "vec \<Rightarrow> vec" where
  "pad_embedding embedding =
     (if length embedding < 1024
      then (let padded = replicate 1024 (0::real)
            in embedding @ drop (length embedding) padded)
      else embedding)"

text \<open>\<^verbatim>\<open>embeddings[0]\<close>: an empty result raises IndexError.\<close>

definition first_row :: "vec list \<Rightarrow> exn + vec" where
  "first_row embeddings =
     (case embeddings of
        [] \<Rightarrow> Inl (IndexError ''index 0 is out of bounds'')
      | e # _ \<Rightarrow> Inr e)"

text \<open>
  \<^verbatim>\<open>get_audio_embedding\<close>. The result is \<open>Inl\<close> for the exception that leaves the
  method (only the RuntimeError of an unloaded model does), and otherwise what the call
  logs, with \<open>None\<close> (the error signal) or the vector.
\<close>

definition get_audio_embedding ::
  "analyzer \<Rightarrow> (string \<Rightarrow> bool) \<Rightarrow> string \<Rightarrow> exn + (event list \<times> vec option)" where
  "get_audio_embedding a path_exists audio_path =
     (case model a of
        None \<Rightarrow> Inl (RuntimeError ''Model not loaded. Call load_model() first.'')
      | Some m \<Rightarrow>
          if \<not> path_exists audio_path
          then Inr ([Log ERROR ''Audio file not found: {}'' [S audio_path]], None)
          else
            (case get_audio_embedding_from_filelist m [audio_path] of
               Inl e \<Rightarrow>
                 Inr ([Log ERROR ''Failed to generate audio embedding for {}: {}'' [S audio_path, E e],
                       PrintExc], None)
             | Inr embeddings \<Rightarrow>
                 (case first_row embeddings of
                    Inl e \<Rightarrow>
                      Inr ([Log ERROR ''Failed to generate audio embedding for {}: {}'' [S audio_path, E e],
                            PrintExc], None)
                  | Inr embedding \<Rightarrow>
                      Inr (if length embedding \<noteq> 512
                           then [Log WARNING ''Unexpected embedding dimension: {}'' [N (length embedding)]]
                           else [],
                           Some (pad_embedding embedding)))))"

text \<open>
  Python's \<^verbatim>\<open>str.strip()\<close> removes leading and trailing whitespace; the characters
  below are the ones \<^verbatim>\<open>str.isspace\<close> accepts among the first 256 code points.
\<close>

definition isspace :: "char \<Rightarrow> bool" where
  "isspace c \<longleftrightarrow>
     (let n = of_char c :: nat
      in (9 \<le> n \<and> n \<le> 13) \<or> (28 \<le> n \<and> n \<le> 32) \<or> n = 133 \<or> n = 160)"

definition strip :: "string \<Rightarrow> string" where
  "strip s = rev (dropWhile isspace (rev (dropWhile isspace s)))"

text \<open>\<^verbatim>\<open>get_text_embedding\<close>: \<^verbatim>\<open>not text or not text.strip()\<close> is the input check.\<close>

definition get_text_embedding ::
  "analyzer \<Rightarrow> string \<Rightarrow> exn + (event list \<times> vec option)" where
  "get_text_embedding a text =
     (case model a of
        None \<Rightarrow> Inl (RuntimeError ''Model not loaded. Call load_model() first.'')
      | Some m \<Rightarrow>
          if text = [] \<or> strip text = []
          then Inr ([Log ERROR ''Empty text provided for embedding'' []], None)
          else
            (case get_text_embedding_from_list m [text] of
               Inl e \<Rightarrow>
                 Inr ([Log ERROR ''Failed to generate text embedding: {}'' [E e],
                       PrintExc], None)
             | Inr embeddings \<Rightarrow>
                 (case first_row embeddings of
                    Inl e \<Rightarrow>
                      Inr ([Log ERROR ''Failed to generate text embedding: {}'' [E e],
                            PrintExc], None)
                  | Inr embedding \<Rightarrow>
                      Inr ([], Some (pad_embedding embedding)))))"

section \<open>DatabaseConnection and the tables\<close>

text \<open>
  The two tables the worker writes. \<^verbatim>\<open>"Track"\<close> is keyed by \<^verbatim>\<open>id\<close>; its three
  analysis columns are nullable. \<^verbatim>\<open>track_embeddings\<close> is kept as the list of its
  rows, so that the number of rows of a track is a property to prove and not one of
  the representation.
\<close>

record track_row =
  analysisStatus :: "string option"
  analysisError :: "string option"
  analysisRetryCount :: "int option"

record embedding_row =
  track_id :: string
  embedding :: vec
  model_version :: string
  analyzed_at :: nat

text \<open>
  What the database does when a worker method asks for a cursor: the liveness probe of
  \<^verbatim>\<open>get_cursor\<close> succeeds, or it fails and \<^verbatim>\<open>reconnect()\<close> succeeds, or
  \<^verbatim>\<open>reconnect()\<close> raises. The boolean says whether the statement and its commit
  will be accepted on that cursor. For a statement that is not accepted,
  \<open>rollback_ok\<close> says whether \<^verbatim>\<open>self.db.rollback()\<close> then succeeds: on a
  connection that was lost after the probe, \<^verbatim>\<open>conn.rollback()\<close> raises as well.
  Both oracles are indexed by the number of the database call.
\<close>

datatype conn_probe = Alive | Reconnects | Unreachable

type_synonym db_step = "conn_probe \<times> bool"

record worker =
  worker_id :: nat
  Track :: "string \<rightharpoonup> track_row"
  track_embeddings :: "embedding_row list"
  trace :: "event list"
  db_oracle :: "nat \<Rightarrow> db_step"
  rollback_ok :: "nat \<Rightarrow> bool"
  db_calls :: nat

type_synonym 'a res = "(exn + 'a) \<times> worker"

definition emit :: "event list \<Rightarrow> worker \<Rightarrow> worker" where
  "emit evs w = w\<lparr>trace := trace w @ evs\<rparr>"

text \<open>
  \<^verbatim>\<open>get_cursor\<close>: \<^verbatim>\<open>if not self.is_connected(): self.reconnect()\<close>. The cursor
  it returns is modelled by the boolean of the oracle.
\<close>

definition get_cursor :: "worker \<Rightarrow> bool res" where
  "get_cursor w =
     (let step = db_oracle w (db_calls w);
          w1 = w\<lparr>db_calls := Suc (db_calls w)\<rparr>
      in case fst step of
           Alive \<Rightarrow> (Inr (snd step), w1)
         | Reconnects \<Rightarrow>
             (Inr (snd step),
              emit [Log INFO ''Reconnecting to database...'' [], DbReconnect,
                    Log INFO ''Connected to PostgreSQL with pgvector support'' []] w1)
         | Unreachable \<Rightarrow>
             (Inl (DatabaseError ''could not connect to server''),
              emit [Log INFO ''Reconnecting to database...'' []] w1))"

text \<open>\<^verbatim>\<open>reconnect\<close> as the worker loop calls it: close, then connect, which may raise.\<close>

definition reconnect :: "bool \<Rightarrow> worker \<Rightarrow> unit res" where
  "reconnect connect_ok w =
     (if connect_ok
      then (Inr (),
            emit [Log INFO ''Reconnecting to database...'' [], DbReconnect,
                  Log INFO ''Connected to PostgreSQL with pgvector support'' []] w)
      else (Inl (DatabaseError ''could not connect to server''),
            emit [Log INFO ''Reconnecting to database...'' []] w))"

subsection \<open>The three SQL statements\<close>

text \<open>
  \<^verbatim>\<open>UPDATE "Track" SET "analysisStatus" = %s WHERE id = %s\<close>: no row, no change.
\<close>

definition sql_update_status ::
  "(string \<rightharpoonup> track_row) \<Rightarrow> string \<Rightarrow> string \<Rightarrow> (string \<rightharpoonup> track_row)" where
  "sql_update_status t tid status =
     (case t tid of
        None \<Rightarrow> t
      | Some r \<Rightarrow> t(tid \<mapsto> r\<lparr>analysisStatus := Some status\<rparr>))"

definition coalesce :: "int option \<Rightarrow> int \<Rightarrow> int" where
  "coalesce v d = (case v of None \<Rightarrow> d | Some n \<Rightarrow> n)"

text \<open>
  \<^verbatim>\<open>
  UPDATE "Track" SET "analysisStatus" = 'failed', "analysisError" = %s,
         "analysisRetryCount" = COALESCE("analysisRetryCount", 0) + 1
  WHERE id = %s
  \<close>
\<close>

definition sql_mark_failed ::
  "(string \<rightharpoonup> track_row) \<Rightarrow> string \<Rightarrow> string \<Rightarrow> (string \<rightharpoonup> track_row)" where
  "sql_mark_failed t tid err =
     (case t tid of
        None \<Rightarrow> t
      | Some r \<Rightarrow>
          t(tid \<mapsto> r\<lparr>analysisStatus := Some ''failed'',
                        analysisError := Some err,
                        analysisRetryCount := Some (coalesce (analysisRetryCount r) 0 + 1)\<rparr>))"

text \<open>
  \<^verbatim>\<open>
  INSERT INTO track_embeddings (track_id, embedding, model_version, analyzed_at)
  VALUES (%s, %s::vector, %s, %s)
  ON CONFLICT (track_id) DO UPDATE SET embedding = EXCLUDED.embedding,
      model_version = EXCLUDED.model_version, analyzed_at = EXCLUDED.analyzed_at
  \<close>
\<close>

definition sql_upsert ::
  "embedding_row list \<Rightarrow> string \<Rightarrow> vec \<Rightarrow> string \<Rightarrow> nat \<Rightarrow> embedding_row list" where
  "sql_upsert rows tid v ver ts =
     (if list_ex (\<lambda>r. track_id r = tid) rows
      then map (\<lambda>r. if track_id r = tid
                     then r\<lparr>embedding := v, model_version := ver, analyzed_at := ts\<rparr>
                     else r) rows
      else rows @ [\<lparr>track_id = tid, embedding = v, model_version = ver, analyzed_at = ts\<rparr>])"

section \<open>Worker\<close>

text \<open>
  The three methods share one shape: the cursor is taken before the \<^verbatim>\<open>try\<close>, so
  an exception of \<^verbatim>\<open>get_cursor\<close> leaves the method; an exception of the statement
  or of the commit is caught, logged and followed by \<^verbatim>\<open>self.db.rollback()\<close>.
  The rollback stands unguarded in the \<^verbatim>\<open>except\<close> block: when it raises, the
  \<^verbatim>\<open>finally\<close> block still closes the cursor and the exception leaves the method.
\<close>

definition stmt_error :: exn where
  "stmt_error = DatabaseError ''statement failed''"

definition rollback_error :: exn where
  "rollback_error = DatabaseError ''connection already closed''"

definition update_track_status :: "string \<Rightarrow> string \<Rightarrow> worker \<Rightarrow> unit res" where
  "update_track_status tid status w =
     (case get_cursor w of
        (Inl e, w1) \<Rightarrow> (Inl e, w1)
      | (Inr cursor_ok, w1) \<Rightarrow>
          if cursor_ok
          then (Inr (),
                emit [DbExecute (UpdateStatus tid status), DbCommit, CursorClose]
                  (w1\<lparr>Track := sql_update_status (Track w1) tid status\<rparr>))
          else (if rollback_ok w (db_calls w) then Inr () else Inl rollback_error,
                emit [DbExecute (UpdateStatus tid status),
                      Log ERROR ''Failed to update track status: {}'' [E stmt_error],
                      DbRollback, CursorClose] w1))"

definition mark_failed :: "string \<Rightarrow> string \<Rightarrow> worker \<Rightarrow> unit res" where
  "mark_failed tid error w =
     (case get_cursor w of
        (Inl e, w1) \<Rightarrow> (Inl e, w1)
      | (Inr cursor_ok, w1) \<Rightarrow>
          if cursor_ok
          then (Inr (),
                emit [DbExecute (MarkFailed tid (take 500 error)), DbCommit,
                      Log ERROR ''Track {} failed: {}'' [S tid, S error], CursorClose]
                  (w1\<lparr>Track := sql_mark_failed (Track w1) tid (take 500 error)\<rparr>))
          else (if rollback_ok w (db_calls w) then Inr () else Inl rollback_error,
                emit [DbExecute (MarkFailed tid (take 500 error)),
                      Log ERROR ''Failed to mark track as failed: {}'' [E stmt_error],
                      DbRollback, CursorClose] w1))"

definition store_embedding :: "nat \<Rightarrow> string \<Rightarrow> vec \<Rightarrow> worker \<Rightarrow> bool res" where
  "store_embedding utcnow tid v w =
     (case get_cursor w of
        (Inl e, w1) \<Rightarrow> (Inl e, w1)
      | (Inr cursor_ok, w1) \<Rightarrow>
          if cursor_ok
          then (Inr True,
                emit [DbExecute (Upsert tid v MODEL_VERSION utcnow), DbCommit, CursorClose]
                  (w1\<lparr>track_embeddings :=
                        sql_upsert (track_embeddings w1) tid v MODEL_VERSION utcnow\<rparr>))
          else (if rollback_ok w (db_calls w) then Inr False else Inl rollback_error,
                emit [DbExecute (Upsert tid v MODEL_VERSION utcnow),
                      Log ERROR ''Failed to store embedding for {}: {}'' [S tid, E stmt_error],
                      PrintExc, DbRollback, CursorClose] w1))"

subsection \<open>Path resolution\<close>

text \<open>\<^verbatim>\<open>file_path.replace('\\', '/')\<close>\<close>

definition normalize_path :: "string \<Rightarrow> string" where
  "normalize_path file_path = map (\<lambda>c. if c = CHR 0x5C then CHR ''/'' else c) file_path"

text \<open>
  \<^verbatim>\<open>os.path.join(a, b)\<close> of \<^verbatim>\<open>posixpath\<close>, for two arguments:
  \<^verbatim>\<open>
  if b.startswith('/'):               path = b
  elif not path or path.endswith('/'): path += b
  else:                               path += '/' + b
  \<close>
\<close>

definition startswith_slash :: "string \<Rightarrow> bool" where
  "startswith_slash b = (case b of [] \<Rightarrow> False | c # _ \<Rightarrow> c = CHR ''/'')"

definition endswith_slash :: "string \<Rightarrow> bool" where
  "endswith_slash a = (case rev a of [] \<Rightarrow> False | c # _ \<Rightarrow> c = CHR ''/'')"

definition path_join :: "string \<Rightarrow> string \<Rightarrow> string" where
  "path_join a b =
     (if startswith_slash b then b
      else if a = [] \<or> endswith_slash a then a @ b
      else a @ ''/'' @ b)"

subsection \<open>One job\<close>

record env =
  the_analyzer :: analyzer
  path_exists :: "string \<Rightarrow> bool"
  MUSIC_PATH :: string
  SLEEP_INTERVAL :: nat
  utcnow :: nat

datatype 'a payload = Unparsable | Parsed 'a

text \<open>
  A field of a job is \<open>None\<close> when its key is missing.
  \<^verbatim>\<open>job.get('filePath', '')\<close> gives the empty string then, and
  \<^verbatim>\<open>not track_id\<close> holds for a missing and for an empty \<^verbatim>\<open>trackId\<close>.
\<close>

definition job_file_path :: "job \<Rightarrow> string" where
  "job_file_path j = (case filePath j of None \<Rightarrow> [] | Some p \<Rightarrow> p)"

definition no_track_id :: "job \<Rightarrow> bool" where
  "no_track_id j \<longleftrightarrow> (case trackId j of None \<Rightarrow> True | Some t \<Rightarrow> t = [])"

definition job_track_id :: "job \<Rightarrow> string" where
  "job_track_id j = (case trackId j of None \<Rightarrow> [] | Some t \<Rightarrow> t)"

text \<open>
  \<^verbatim>\<open>
  normalized_path = file_path.replace('\\', '/')
  full_path = os.path.join(MUSIC_PATH, normalized_path)
  \<close>
\<close>

definition resolve_path :: "env \<Rightarrow> job \<Rightarrow> string" where
  "resolve_path ev j =
     (let normalized_path = normalize_path (job_file_path j)
      in path_join (MUSIC_PATH ev) normalized_path)"

text \<open>
  \<^verbatim>\<open>_process_job\<close>. The argument \<open>job_data\<close> is the result of \<^verbatim>\<open>blpop\<close>:
  \<open>None\<close> after the timeout, otherwise the raw message, which \<^verbatim>\<open>json.loads\<close>
  turns into a job or rejects. The event \<open>EmbedAudio p\<close> records the call
  \<^verbatim>\<open>self.analyzer.get_audio_embedding(p)\<close>.
\<close>

definition process_job :: "env \<Rightarrow> job payload option \<Rightarrow> worker \<Rightarrow> unit res" where
  "process_job ev job_data w =
     (case job_data of
        None \<Rightarrow> (Inr (), w)
      | Some Unparsable \<Rightarrow> (Inl (OtherError ''JSONDecodeError''), w)
      | Some (Parsed j) \<Rightarrow>
          if no_track_id j
          then (Inr (), emit [Log WARNING ''Invalid job (no trackId): {}'' [J j]] w)
          else
            (let tid = job_track_id j;
                 w0 = emit [Log INFO ''Worker {} processing track: {}'' [N (worker_id w), S tid]] w
             in case update_track_status tid ''processing'' w0 of
                  (Inl e, w1) \<Rightarrow> (Inl e, w1)
                | (Inr _, w1) \<Rightarrow>
                    (let full_path = resolve_path ev j;
                         w2 = emit [EmbedAudio full_path] w1
                     in case get_audio_embedding (the_analyzer ev) (path_exists ev) full_path of
                          Inl e \<Rightarrow> (Inl e, w2)
                        | Inr (logs, None) \<Rightarrow>
                            mark_failed tid ''Failed to generate embedding'' (emit logs w2)
                        | Inr (logs, Some v) \<Rightarrow>
                            (case store_embedding (utcnow ev) tid v (emit logs w2) of
                               (Inl e, w3) \<Rightarrow> (Inl e, w3)
                             | (Inr success, w3) \<Rightarrow>
                                 if success
                                 then (case update_track_status tid ''completed'' w3 of
                                         (Inl e, w4) \<Rightarrow> (Inl e, w4)
                                       | (Inr _, w4) \<Rightarrow>
                                           (Inr (),
                                            emit [Log INFO ''Worker {} completed track: {}''
                                                    [N (worker_id w), S tid]] w4))
                                 else mark_failed tid ''Failed to store embedding'' w3))))"

subsection \<open>The worker loop\<close>

text \<open>
  One element of the list is what the environment gives to one test of the loop
  condition and the iteration that follows it: the value of \<^verbatim>\<open>stop_event.is_set()\<close>,
  the result of \<^verbatim>\<open>blpop\<close>, and whether \<^verbatim>\<open>connect()\<close> succeeds should the handler
  of \<^verbatim>\<open>psycopg2.Error\<close> call \<^verbatim>\<open>reconnect()\<close>. The loop ends when the stop flag is
  seen (\<open>Stopped\<close>) or when an exception leaves it (\<open>Crashed\<close>); \<open>StillRunning\<close>
  says that the list is used up with the loop still going.
\<close>

record iteration =
  stop_set :: bool
  popped :: "job payload option"
  connect_ok :: bool

datatype loop_end = Stopped | Crashed exn | StillRunning

fun worker_loop :: "env \<Rightarrow> iteration list \<Rightarrow> worker \<Rightarrow> loop_end \<times> worker" where
  "worker_loop ev [] w = (StillRunning, w)"
| "worker_loop ev (it # its) w =
     (if stop_set it then (Stopped, w)
      else case process_job ev (popped it) w of
             (Inr _, w1) \<Rightarrow> worker_loop ev its w1
           | (Inl e, w1) \<Rightarrow>
               if is_psycopg2_error e
               then (case reconnect (connect_ok it)
                            (emit [Log ERROR ''Worker {} database error: {}'' [N (worker_id w), E e],
                                   PrintExc] w1) of
                       (Inl e', w2) \<Rightarrow> (Crashed e', w2)
                     | (Inr _, w2) \<Rightarrow> worker_loop ev its (emit [Sleep (SLEEP_INTERVAL ev)] w2))
               else worker_loop ev its
                      (emit [Log ERROR ''Worker {} error: {}'' [N (worker_id w), E e],
                             PrintExc, Sleep (SLEEP_INTERVAL ev)] w1))"

section \<open>TextEmbedHandler\<close>

text \<open>
  \<^verbatim>\<open>_handle_message\<close>: the whole body is inside one \<^verbatim>\<open>try\<close>, so the method
  returns its events and never raises. The published payload is the dictionary given
  to \<^verbatim>\<open>json.dumps\<close>, in the order of its keys.
\<close>

definition build_response :: "string \<Rightarrow> vec option \<Rightarrow> jdict" where
  "build_response request_id emb =
     [(''requestId'', JStr request_id),
      (''success'', JBool (emb \<noteq> None)),
      (''embedding'', (case emb of None \<Rightarrow> JNull | Some v \<Rightarrow> JArr (map JNum v))),
      (''modelVersion'', JStr MODEL_VERSION)]"

text \<open>
  \<^verbatim>\<open>request.get('text', '')\<close>, and \<^verbatim>\<open>not request_id\<close>, which holds for a
  missing and for an empty \<^verbatim>\<open>requestId\<close>.
\<close>

definition request_text :: "request \<Rightarrow> string" where
  "request_text req = (case text_field req of None \<Rightarrow> [] | Some t \<Rightarrow> t)"

definition no_request_id :: "request \<Rightarrow> bool" where
  "no_request_id req \<longleftrightarrow> (case requestId req of None \<Rightarrow> True | Some r \<Rightarrow> r = [])"

definition request_request_id :: "request \<Rightarrow> string" where
  "request_request_id req = (case requestId req of None \<Rightarrow> [] | Some r \<Rightarrow> r)"

text \<open>The event \<open>EmbedText t\<close> records the call \<^verbatim>\<open>self.analyzer.get_text_embedding(t)\<close>.\<close>

definition handle_message :: "analyzer \<Rightarrow> request payload \<Rightarrow> event list" where
  "handle_message a data =
     (case data of
        Unparsable \<Rightarrow>
          [Log ERROR ''Failed to handle text embed request: {}'' [E (OtherError ''JSONDecodeError'')],
           PrintExc]
      | Parsed req \<Rightarrow>
          if no_request_id req
          then [Log WARNING ''Text embed request missing requestId'' []]
          else
            (let request_id = request_request_id req;
                 txt = request_text req
             in [Log INFO ''Processing text embed request: {}'' [S request_id],
                 EmbedText txt] @
                (case get_text_embedding a txt of
                   Inl e \<Rightarrow>
                     [Log ERROR ''Failed to handle text embed request: {}'' [E e], PrintExc]
                 | Inr (logs, emb) \<Rightarrow>
                     logs @
                     [Publish (TEXT_EMBED_RESPONSE_PREFIX @ request_id)
                        (build_response request_id emb),
                      Log INFO ''Text embed response sent: {}'' [S request_id]])))"

section \<open>Vocabulary of the properties\<close>

text \<open>
  \<open>padded_to_1024 e v\<close>: \<open>v\<close> is the native output \<open>e\<close> followed by zeros up to
  index 1024, and \<open>e\<close> itself when \<open>e\<close> is wider than that.
\<close>

definition padded_to_1024 :: "vec \<Rightarrow> vec \<Rightarrow> bool" where
  "padded_to_1024 e v \<longleftrightarrow>
     (length e \<le> 1024 \<longrightarrow> length v = 1024) \<and>
     (1024 < length e \<longrightarrow> v = e) \<and>
     (\<forall>i < length e. v ! i = e ! i) \<and>
     (\<forall>i. length e \<le> i \<and> i < 1024 \<longrightarrow> v ! i = 0)"

text \<open>
  Database call number \<open>i\<close> of a worker raises no connection-level error: the cursor
  is obtained, and the rollback succeeds should the statement be rejected.
\<close>

definition db_call_ok :: "worker \<Rightarrow> nat \<Rightarrow> bool" where
  "db_call_ok w i \<longleftrightarrow>
     fst (db_oracle w i) \<noteq> Unreachable \<and> (snd (db_oracle w i) \<or> rollback_ok w i)"

text \<open>The events a call of a worker method adds to the trace.\<close>

definition new_events :: "worker \<Rightarrow> worker \<Rightarrow> event list" where
  "new_events w w' = drop (length (trace w)) (trace w')"

text \<open>
  The actions of a job that the properties below speak of: the statements sent to the database
  and the calls of \<^verbatim>\<open>get_audio_embedding\<close>, in the order they happen.
\<close>

fun is_action :: "event \<Rightarrow> bool" where
  "is_action (DbExecute _) = True"
| "is_action (EmbedAudio _) = True"
| "is_action _ = False"

definition job_actions :: "event list \<Rightarrow> event list" where
  "job_actions evs = filter is_action evs"

text \<open>The responses published by the text handler, with their channels.\<close>

fun publications :: "event list \<Rightarrow> (string \<times> jdict) list" where
  "publications [] = []"
| "publications (Publish ch r # evs) = (ch, r) # publications evs"
| "publications (_ # evs) = publications evs"

text \<open>
  The actions of one job whose database calls all get a cursor, as a function of what
  the embedding call gives and of whether the upsert is accepted: the status
  \<open>processing\<close>, the embedding call, and then either \<open>mark_failed\<close>, or the upsert
  followed by the status \<open>completed\<close> or by \<open>mark_failed\<close>.
\<close>

definition expected_actions :: "env \<Rightarrow> job \<Rightarrow> bool \<Rightarrow> event list" where
  "expected_actions ev j upsert_ok =
     [DbExecute (UpdateStatus (job_track_id j) ''processing''),
      EmbedAudio (resolve_path ev j)] @
     (case get_audio_embedding (the_analyzer ev) (path_exists ev) (resolve_path ev j) of
        Inl e \<Rightarrow> []
      | Inr (logs, None) \<Rightarrow>
          [DbExecute (MarkFailed (job_track_id j) ''Failed to generate embedding'')]
      | Inr (logs, Some v) \<Rightarrow>
          [DbExecute (Upsert (job_track_id j) v MODEL_VERSION (utcnow ev)),
           if upsert_ok
           then DbExecute (UpdateStatus (job_track_id j) ''completed'')
           else DbExecute (MarkFailed (job_track_id j) ''Failed to store embedding'')])"

text \<open>The terminal writes of a track: the status \<open>completed\<close> and \<open>mark_failed\<close>.\<close>

fun is_terminal :: "string \<Rightarrow> event \<Rightarrow> bool" where
  "is_terminal tid (DbExecute (UpdateStatus t st)) = (t = tid \<and> st = ''completed'')"
| "is_terminal tid (DbExecute (MarkFailed t msg)) = (t = tid)"
| "is_terminal tid _ = False"

subsection \<open>Concrete models and analyzers\<close>

text \<open>
  A model of the native width 512 of HTSAT-base, a model of width 1025, and a model
  whose computation raises.
\<close>

definition base_model :: clap_model where
  "base_model =
     \<lparr>get_audio_embedding_from_filelist = (\<lambda>paths. Inr [replicate 512 1]),
      get_text_embedding_from_list = (\<lambda>texts. Inr [replicate 512 2])\<rparr>"

definition wide_model :: clap_model where
  "wide_model =
     \<lparr>get_audio_embedding_from_filelist = (\<lambda>paths. Inr [replicate 1025 1]),
      get_text_embedding_from_list = (\<lambda>texts. Inr [replicate 1025 2])\<rparr>"

definition raising_model :: clap_model where
  "raising_model =
     \<lparr>get_audio_embedding_from_filelist = (\<lambda>paths. Inl (OtherError ''could not decode'')),
      get_text_embedding_from_list = (\<lambda>texts. Inl (OtherError ''tokenizer failed''))\<rparr>"

definition loaded :: "clap_model \<Rightarrow> analyzer" where
  "loaded m = \<lparr>model = Some m\<rparr>"

subsection \<open>Concrete workers and environments\<close>

definition fresh_row :: track_row where
  "fresh_row = \<lparr>analysisStatus = None, analysisError = None, analysisRetryCount = None\<rparr>"

definition worker0 :: worker where
  "worker0 =
     \<lparr>worker_id = 0,
      Track = [''t1'' \<mapsto> fresh_row],
      track_embeddings = [],
      trace = [],
      db_oracle = (\<lambda>i. (Alive, True)),
      rollback_ok = (\<lambda>i. True),
      db_calls = 0\<rparr>"

definition env0 :: env where
  "env0 =
     \<lparr>the_analyzer = loaded base_model,
      path_exists = (\<lambda>p. p = ''/music/album/song.mp3''),
      MUSIC_PATH = ''/music'',
      SLEEP_INTERVAL = 5,
      utcnow = 1000\<rparr>"

definition job1 :: job where
  "job1 = \<lparr>trackId = Some ''t1'', filePath = Some ''album/song.mp3''\<rparr>"

definition request1 :: request where
  "request1 = \<lparr>requestId = Some ''r1'', text_field = Some ''upbeat synth''\<rparr>"

text \<open>
  A worker whose database cannot be reached at its second call, one whose database
  cannot be reached at all, and two iterations of the loop: a job, then an empty queue,
  with \<^verbatim>\<open>connect()\<close> failing in the first.
\<close>

definition worker_lost :: worker where
  "worker_lost = worker0\<lparr>db_oracle := (\<lambda>i. if i = 1 then (Unreachable, True) else (Alive, True))\<rparr>"

definition worker_down :: worker where
  "worker_down = worker0\<lparr>db_oracle := (\<lambda>i. (Unreachable, True))\<rparr>"

definition worker_reject :: worker where
  "worker_reject = worker0\<lparr>db_oracle := (\<lambda>i. (Alive, i \<noteq> 1))\<rparr>"

definition outage_run :: "iteration list" where
  "outage_run =
     [\<lparr>stop_set = False, popped = Some (Parsed job1), connect_ok = False\<rparr>,
      \<lparr>stop_set = False, popped = None, connect_ok = True\<rparr>]"

text \<open>
  A media root that ends with a separator, two Windows-style paths (the character
  \<open>CHR 0x5C\<close> is the backslash), and a job without \<open>filePath\<close>.
\<close>

definition env_slash :: env where
  "env_slash = env0\<lparr>MUSIC_PATH := ''/music/''\<rparr>"

definition win_abs_path :: string where
  "win_abs_path = CHR 0x5C # ''srv'' @ CHR 0x5C # ''a.mp3''"

definition win_rel_path :: string where
  "win_rel_path = ''album'' @ CHR 0x5C # ''song.mp3''"

definition job_win_abs :: job where
  "job_win_abs = \<lparr>trackId = Some ''t1'', filePath = Some win_abs_path\<rparr>"

definition job_win_rel :: job where
  "job_win_rel = \<lparr>trackId = Some ''t1'', filePath = Some win_rel_path\<rparr>"

definition job_no_path :: job where
  "job_no_path = \<lparr>trackId = Some ''t1'', filePath = None\<rparr>"

section \<open>Loading the model\<close>

lemma new_analyzer_unloaded: "model new_analyzer = None"
  by (simp add: new_analyzer_def)

lemma load_model_loaded:
  "load_model build load_ckpt a = (None, a') \<Longrightarrow> model a' \<noteq> None"
  by (auto simp: load_model_def split: if_splits sum.splits)

section \<open>Properties of the padding\<close>

lemma pad_embedding_length:
  "length (pad_embedding e) = max 1024 (length e)"
  by (simp add: pad_embedding_def Let_def)

lemma pad_embedding_prefix:
  "i < length e \<Longrightarrow> pad_embedding e ! i = e ! i"
  by (simp add: pad_embedding_def Let_def nth_append)

lemma pad_embedding_zero:
  "length e \<le> i \<Longrightarrow> i < 1024 \<Longrightarrow> pad_embedding e ! i = 0"
  by (simp add: pad_embedding_def Let_def nth_append)

lemma pad_embedding_padded: "padded_to_1024 e (pad_embedding e)"
  unfolding padded_to_1024_def
  by (simp add: pad_embedding_length pad_embedding_prefix pad_embedding_zero)
     (simp add: pad_embedding_def)

lemma get_audio_embedding_SomeD:
  assumes "get_audio_embedding a ex p = Inr (evs, Some v)"
  shows "\<exists>m e rest. model a = Some m \<and> ex p \<and>
           get_audio_embedding_from_filelist m [p] = Inr (e # rest) \<and> v = pad_embedding e"
  using assms
  by (auto simp: get_audio_embedding_def first_row_def
           split: option.splits if_splits sum.splits list.splits)

lemma get_text_embedding_SomeD:
  assumes "get_text_embedding a t = Inr (evs, Some v)"
  shows "\<exists>m e rest. model a = Some m \<and> strip t \<noteq> [] \<and>
           get_text_embedding_from_list m [t] = Inr (e # rest) \<and> v = pad_embedding e"
  using assms
  by (auto simp: get_text_embedding_def first_row_def
           split: option.splits if_splits sum.splits list.splits)

section \<open>C1: width of the returned vector\<close>

text \<open>
  Whenever \<open>get_audio_embedding\<close> or \<open>get_text_embedding\<close> returns a vector, that
  vector is the first row \<open>e\<close> of the model's output as \<open>pad_embedding\<close> leaves it:
  for a row of at most 1024 elements it has exactly 1024 elements, agrees with \<open>e\<close> on
  the indices of \<open>e\<close> and is zero from the width of \<open>e\<close> up to 1024.
\<close>

lemma embedding_is_padded_row:
  "(get_audio_embedding a ex p = Inr (evs, Some v) \<longrightarrow>
      (\<exists>m e rest. model a = Some m \<and>
         get_audio_embedding_from_filelist m [p] = Inr (e # rest) \<and> padded_to_1024 e v))
   \<and>
   (get_text_embedding a t = Inr (evs', Some v') \<longrightarrow>
      (\<exists>m e rest. model a = Some m \<and>
         get_text_embedding_from_list m [t] = Inr (e # rest) \<and> padded_to_1024 e v'))"
proof (intro conjI impI)
  assume "get_audio_embedding a ex p = Inr (evs, Some v)"
  from get_audio_embedding_SomeD [OF this]
  show "\<exists>m e rest. model a = Some m \<and>
          get_audio_embedding_from_filelist m [p] = Inr (e # rest) \<and> padded_to_1024 e v"
    using pad_embedding_padded by blast
next
  assume "get_text_embedding a t = Inr (evs', Some v')"
  from get_text_embedding_SomeD [OF this]
  show "\<exists>m e rest. model a = Some m \<and>
          get_text_embedding_from_list m [t] = Inr (e # rest) \<and> padded_to_1024 e v'"
    using pad_embedding_padded by blast
qed

lemma narrow_row_padded_to_1024:
  assumes "padded_to_1024 e v" and "length e \<le> 1024"
  shows "length v = 1024 \<and> (\<forall>i < length e. v ! i = e ! i)
     \<and> (\<forall>i. length e \<le> i \<and> i < 1024 \<longrightarrow> v ! i = 0)"
  using assms by (simp add: padded_to_1024_def)

text \<open>
  C1 does not hold of the code. Both docstrings promise
  \<^verbatim>\<open>numpy array of shape (1024,) or None on error\<close> and the comment above the
  padding says that 1024 is needed for the schema, but the padding is guarded by
  \<^verbatim>\<open>embedding.shape[0] < 1024\<close> and nothing cuts a wider row: a model whose first
  row has 1025 elements gets all 1025 back, from the audio method and from the text
  method alike.
\<close>

theorem C1_wide_row_keeps_width:
  "get_audio_embedding (loaded wide_model) (\<lambda>p. True) ''/music/a.mp3''
     = Inr ([Log WARNING ''Unexpected embedding dimension: {}'' [N 1025]],
            Some (replicate 1025 1))
   \<and> get_text_embedding (loaded wide_model) ''upbeat synth''
     = Inr ([], Some (replicate 1025 2))
   \<and> length (replicate 1025 (1::real)) = 1025
   \<and> length (replicate 1025 (2::real)) = 1025"
  by (simp add: get_audio_embedding_def get_text_embedding_def loaded_def wide_model_def
        first_row_def pad_embedding_def strip_def isspace_def)


section \<open>C3: the outcomes of get_audio_embedding\<close>

text \<open>
  The outcomes of \<open>get_audio_embedding\<close>, in the order of its checks: the RuntimeError
  "Model not loaded" when \<^verbatim>\<open>self.model\<close> is \<open>None\<close>; with a model, the log
  "Audio file not found" and the error signal \<open>None\<close> when the path does not exist;
  when the model's computation raises, or gives no row, the failure log, the traceback
  and \<open>None\<close>, without raising; otherwise the first row of the model's output as
  \<open>pad_embedding\<close> leaves it, which has exactly 1024 elements whenever that row has
  at most 1024.
\<close>

lemma embed_audio_outcomes:
  "(model a = None \<longrightarrow>
      get_audio_embedding a ex p = Inl (RuntimeError ''Model not loaded. Call load_model() first.''))
   \<and> (model a = Some m \<and> \<not> ex p \<longrightarrow>
      get_audio_embedding a ex p = Inr ([Log ERROR ''Audio file not found: {}'' [S p]], None))
   \<and> (model a = Some m \<and> ex p \<and> get_audio_embedding_from_filelist m [p] = Inl e \<longrightarrow>
      get_audio_embedding a ex p =
        Inr ([Log ERROR ''Failed to generate audio embedding for {}: {}'' [S p, E e], PrintExc],
             None))
   \<and> (model a = Some m \<and> ex p \<and> get_audio_embedding_from_filelist m [p] = Inr [] \<longrightarrow>
      (\<exists>e'. get_audio_embedding a ex p =
        Inr ([Log ERROR ''Failed to generate audio embedding for {}: {}'' [S p, E e'], PrintExc],
             None)))
   \<and> (model a = Some m \<and> ex p \<and> get_audio_embedding_from_filelist m [p] = Inr (v # rest) \<longrightarrow>
      (\<exists>logs. get_audio_embedding a ex p = Inr (logs, Some (pad_embedding v)))
      \<and> padded_to_1024 v (pad_embedding v)
      \<and> (length v \<le> 1024 \<longrightarrow> length (pad_embedding v) = 1024))"
proof (intro conjI impI)
  assume "model a = None"
  then show "get_audio_embedding a ex p
               = Inl (RuntimeError ''Model not loaded. Call load_model() first.'')"
    by (simp add: get_audio_embedding_def)
next
  assume "model a = Some m \<and> \<not> ex p"
  then show "get_audio_embedding a ex p
               = Inr ([Log ERROR ''Audio file not found: {}'' [S p]], None)"
    by (simp add: get_audio_embedding_def)
next
  assume "model a = Some m \<and> ex p \<and> get_audio_embedding_from_filelist m [p] = Inl e"
  then show "get_audio_embedding a ex p =
        Inr ([Log ERROR ''Failed to generate audio embedding for {}: {}'' [S p, E e], PrintExc],
             None)"
    by (simp add: get_audio_embedding_def)
next
  assume "model a = Some m \<and> ex p \<and> get_audio_embedding_from_filelist m [p] = Inr []"
  then show "\<exists>e'. get_audio_embedding a ex p =
        Inr ([Log ERROR ''Failed to generate audio embedding for {}: {}'' [S p, E e'], PrintExc],
             None)"
    by (simp add: get_audio_embedding_def first_row_def)
next
  assume "model a = Some m \<and> ex p \<and> get_audio_embedding_from_filelist m [p] = Inr (v # rest)"
  then show "\<exists>logs. get_audio_embedding a ex p = Inr (logs, Some (pad_embedding v))"
    by (simp add: get_audio_embedding_def first_row_def)
next
  show "padded_to_1024 v (pad_embedding v)"
    by (rule pad_embedding_padded)
next
  assume "length v \<le> 1024"
  then show "length (pad_embedding v) = 1024"
    by (simp add: pad_embedding_length)
qed

text \<open>
  A fresh analyzer has no model, so a call before \<^verbatim>\<open>load_model\<close> raises. A
  \<^verbatim>\<open>load_model\<close> that fails in \<^verbatim>\<open>load_ckpt\<close> has already assigned the
  constructed module to \<^verbatim>\<open>self.model\<close>, and raises again; in the service this
  exception ends \<^verbatim>\<open>main()\<close> before any worker starts.
\<close>

lemma fresh_analyzer_not_loaded:
  "get_audio_embedding new_analyzer ex p
     = Inl (RuntimeError ''Model not loaded. Call load_model() first.'')"
  by (simp add: get_audio_embedding_def new_analyzer_def)

lemma load_ckpt_failure_keeps_module:
  "load_model (Inr m0) (\<lambda>m. Inl e) new_analyzer = (Some e, \<lparr>model = Some m0\<rparr>)"
  by (simp add: load_model_def new_analyzer_def)

text \<open>
  C3 does not hold of the code in its last part. The docstring of
  \<^verbatim>\<open>get_audio_embedding\<close> promises \<^verbatim>\<open>numpy array of shape (1024,) or None on error\<close>,
  but with the model loaded, the file present and no failure of the computation, a
  first row of 1025 elements is returned with its 1025 elements: the call neither
  signals an error nor returns a 1024-dim vector.
\<close>

theorem C3_wide_row_not_1024:
  "model (loaded wide_model) = Some wide_model
   \<and> get_audio_embedding_from_filelist wide_model [''/music/b.flac''] = Inr [replicate 1025 1]
   \<and> (case get_audio_embedding (loaded wide_model) (\<lambda>p. p = ''/music/b.flac'') ''/music/b.flac'' of
         Inr (logs, Some v) \<Rightarrow> length v = 1025
       | _ \<Rightarrow> False)"
  by (simp add: get_audio_embedding_def loaded_def wide_model_def first_row_def
        pad_embedding_def)


section \<open>The worker methods when no connection-level error is raised\<close>

lemma job_actions_append: "job_actions (xs @ ys) = job_actions xs @ job_actions ys"
  by (simp add: job_actions_def)

lemma new_events_append: "trace w' = trace w @ evs \<Longrightarrow> new_events w w' = evs"
  by (simp add: new_events_def)

lemma get_cursor_reachable:
  assumes "fst (db_oracle w (db_calls w)) \<noteq> Unreachable"
  shows "\<exists>w1 evs. get_cursor w = (Inr (snd (db_oracle w (db_calls w))), w1)
           \<and> Track w1 = Track w \<and> track_embeddings w1 = track_embeddings w
           \<and> db_oracle w1 = db_oracle w \<and> rollback_ok w1 = rollback_ok w
           \<and> db_calls w1 = Suc (db_calls w)
           \<and> worker_id w1 = worker_id w
           \<and> trace w1 = trace w @ evs \<and> job_actions evs = []"
  using assms
  by (cases "fst (db_oracle w (db_calls w))")
     (simp_all add: get_cursor_def Let_def emit_def job_actions_def)

lemma update_track_status_reachable:
  assumes "db_call_ok w (db_calls w)"
  shows "\<exists>w' evs. update_track_status tid st w = (Inr (), w')
           \<and> Track w' = (if snd (db_oracle w (db_calls w))
                          then sql_update_status (Track w) tid st else Track w)
           \<and> track_embeddings w' = track_embeddings w
           \<and> db_oracle w' = db_oracle w \<and> rollback_ok w' = rollback_ok w
           \<and> db_calls w' = Suc (db_calls w)
           \<and> worker_id w' = worker_id w
           \<and> trace w' = trace w @ evs
           \<and> job_actions evs = [DbExecute (UpdateStatus tid st)]"
proof -
  from assms have r: "fst (db_oracle w (db_calls w)) \<noteq> Unreachable"
    and a: "snd (db_oracle w (db_calls w)) \<or> rollback_ok w (db_calls w)"
    by (simp_all add: db_call_ok_def)
  from get_cursor_reachable [OF r]
  obtain w1 evs where c: "get_cursor w = (Inr (snd (db_oracle w (db_calls w))), w1)"
    "Track w1 = Track w" "track_embeddings w1 = track_embeddings w"
    "db_oracle w1 = db_oracle w" "rollback_ok w1 = rollback_ok w"
    "db_calls w1 = Suc (db_calls w)"
    "worker_id w1 = worker_id w" "trace w1 = trace w @ evs" "job_actions evs = []"
    by blast
  with a show ?thesis
    by (auto simp: update_track_status_def emit_def job_actions_def)
qed

lemma mark_failed_reachable:
  assumes "db_call_ok w (db_calls w)"
  shows "\<exists>w' evs. mark_failed tid error w = (Inr (), w')
           \<and> Track w' = (if snd (db_oracle w (db_calls w))
                          then sql_mark_failed (Track w) tid (take 500 error) else Track w)
           \<and> track_embeddings w' = track_embeddings w
           \<and> db_oracle w' = db_oracle w \<and> rollback_ok w' = rollback_ok w
           \<and> db_calls w' = Suc (db_calls w)
           \<and> worker_id w' = worker_id w
           \<and> trace w' = trace w @ evs
           \<and> job_actions evs = [DbExecute (MarkFailed tid (take 500 error))]"
proof -
  from assms have r: "fst (db_oracle w (db_calls w)) \<noteq> Unreachable"
    and a: "snd (db_oracle w (db_calls w)) \<or> rollback_ok w (db_calls w)"
    by (simp_all add: db_call_ok_def)
  from get_cursor_reachable [OF r]
  obtain w1 evs where c: "get_cursor w = (Inr (snd (db_oracle w (db_calls w))), w1)"
    "Track w1 = Track w" "track_embeddings w1 = track_embeddings w"
    "db_oracle w1 = db_oracle w" "rollback_ok w1 = rollback_ok w"
    "db_calls w1 = Suc (db_calls w)"
    "worker_id w1 = worker_id w" "trace w1 = trace w @ evs" "job_actions evs = []"
    by blast
  with a show ?thesis
    by (auto simp: mark_failed_def emit_def job_actions_def)
qed

lemma store_embedding_reachable:
  assumes "db_call_ok w (db_calls w)"
  shows "\<exists>w' evs. store_embedding now tid v w = (Inr (snd (db_oracle w (db_calls w))), w')
           \<and> Track w' = Track w
           \<and> track_embeddings w' = (if snd (db_oracle w (db_calls w))
                then sql_upsert (track_embeddings w) tid v MODEL_VERSION now
                else track_embeddings w)
           \<and> db_oracle w' = db_oracle w \<and> rollback_ok w' = rollback_ok w
           \<and> db_calls w' = Suc (db_calls w)
           \<and> worker_id w' = worker_id w
           \<and> trace w' = trace w @ evs
           \<and> job_actions evs = [DbExecute (Upsert tid v MODEL_VERSION now)]"
proof -
  from assms have r: "fst (db_oracle w (db_calls w)) \<noteq> Unreachable"
    and a: "snd (db_oracle w (db_calls w)) \<or> rollback_ok w (db_calls w)"
    by (simp_all add: db_call_ok_def)
  from get_cursor_reachable [OF r]
  obtain w1 evs where c: "get_cursor w = (Inr (snd (db_oracle w (db_calls w))), w1)"
    "Track w1 = Track w" "track_embeddings w1 = track_embeddings w"
    "db_oracle w1 = db_oracle w" "rollback_ok w1 = rollback_ok w"
    "db_calls w1 = Suc (db_calls w)"
    "worker_id w1 = worker_id w" "trace w1 = trace w @ evs" "job_actions evs = []"
    by blast
  with a show ?thesis
    by (auto simp: store_embedding_def emit_def job_actions_def)
qed

lemma get_audio_embedding_logs:
  "get_audio_embedding a ex p = Inr (logs, r) \<Longrightarrow> job_actions logs = []"
  by (auto simp: get_audio_embedding_def job_actions_def
           split: option.splits if_splits sum.splits)

lemma get_audio_embedding_loaded:
  "model a \<noteq> None \<Longrightarrow> \<exists>logs r. get_audio_embedding a ex p = Inr (logs, r)"
  by (auto simp: get_audio_embedding_def split: option.splits sum.splits)

lemma no_track_id_iff:
  "no_track_id j \<longleftrightarrow> trackId j = None \<or> trackId j = Some []"
  by (simp add: no_track_id_def split: option.splits)

lemma process_job_actions:
  assumes loaded: "model (the_analyzer ev) \<noteq> None"
    and tid: "\<not> no_track_id j"
    and reach: "\<forall>i. db_call_ok w i"
  shows "\<exists>w' evs. process_job ev (Some (Parsed j)) w = (Inr (), w')
           \<and> trace w' = trace w @ evs
           \<and> job_actions evs = expected_actions ev j (snd (db_oracle w (Suc (db_calls w))))"
proof -
  let ?tid = "job_track_id j"
  let ?w0 = "emit [Log INFO ''Worker {} processing track: {}'' [N (worker_id w), S ?tid]] w"
  have r0: "db_call_ok ?w0 (db_calls ?w0)"
    using reach by (simp add: emit_def db_call_ok_def)
  from update_track_status_reachable [OF r0, of ?tid "''processing''"]
  obtain w1 evs1 where u: "update_track_status ?tid ''processing'' ?w0 = (Inr (), w1)"
    and o1: "db_oracle w1 = db_oracle w" and b1: "rollback_ok w1 = rollback_ok w"
    and c1: "db_calls w1 = Suc (db_calls w)"
    and t1: "trace w1 = trace ?w0 @ evs1"
    and a1: "job_actions evs1 = [DbExecute (UpdateStatus ?tid ''processing'')]"
    by (auto simp: emit_def)
  let ?p = "resolve_path ev j"
  let ?w2 = "emit [EmbedAudio ?p] w1"
  from get_audio_embedding_loaded [OF loaded]
  obtain logs r where g: "get_audio_embedding (the_analyzer ev) (path_exists ev) ?p = Inr (logs, r)"
    by blast
  from get_audio_embedding_logs [OF g] have al: "job_actions logs = []" .
  let ?w2' = "emit logs ?w2"
  have o2: "db_oracle ?w2' = db_oracle w" and b2: "rollback_ok ?w2' = rollback_ok w"
    and c2: "db_calls ?w2' = Suc (db_calls w)"
    and t2: "trace ?w2' = trace w @ [Log INFO ''Worker {} processing track: {}'' [N (worker_id w), S ?tid]]
                @ evs1 @ [EmbedAudio ?p] @ logs"
    using o1 b1 c1 t1 by (simp_all add: emit_def)
  have r2: "db_call_ok ?w2' (db_calls ?w2')"
    using reach o2 b2 by (simp add: db_call_ok_def)
  show ?thesis
  proof (cases r)
    case None
    from mark_failed_reachable [OF r2, of ?tid "''Failed to generate embedding''"]
    obtain w3 evs3 where m: "mark_failed ?tid ''Failed to generate embedding'' ?w2' = (Inr (), w3)"
      and t3: "trace w3 = trace ?w2' @ evs3"
      and a3: "job_actions evs3 = [DbExecute (MarkFailed ?tid ''Failed to generate embedding'')]"
      by auto
    from tid u g None m have "process_job ev (Some (Parsed j)) w = (Inr (), w3)"
      by (simp add: process_job_def Let_def)
    moreover from t2 t3 have "trace w3 = trace w @
        ([Log INFO ''Worker {} processing track: {}'' [N (worker_id w), S ?tid]]
                @ evs1 @ [EmbedAudio ?p] @ logs @ evs3)"
      by simp
    moreover from a1 al a3 g None
    have "job_actions ([Log INFO ''Worker {} processing track: {}'' [N (worker_id w), S ?tid]]
                @ evs1 @ [EmbedAudio ?p] @ logs @ evs3)
          = expected_actions ev j (snd (db_oracle w (Suc (db_calls w))))"
      by (simp add: job_actions_append expected_actions_def) (simp add: job_actions_def)
    ultimately show ?thesis by blast
  next
    case (Some v)
    from store_embedding_reachable [OF r2, of "utcnow ev" ?tid v]
    obtain w3 evs3 where s: "store_embedding (utcnow ev) ?tid v ?w2'
                               = (Inr (snd (db_oracle w (Suc (db_calls w)))), w3)"
      and o3: "db_oracle w3 = db_oracle w" and b3: "rollback_ok w3 = rollback_ok w"
      and c3: "db_calls w3 = Suc (Suc (db_calls w))"
      and t3: "trace w3 = trace ?w2' @ evs3"
      and a3: "job_actions evs3 = [DbExecute (Upsert ?tid v MODEL_VERSION (utcnow ev))]"
      using o2 b2 c2 by auto
    have r3: "db_call_ok w3 (db_calls w3)"
      using reach o3 b3 by (simp add: db_call_ok_def)
    show ?thesis
    proof (cases "snd (db_oracle w (Suc (db_calls w)))")
      case True
      from update_track_status_reachable [OF r3, of ?tid "''completed''"]
      obtain w4 evs4 where u4: "update_track_status ?tid ''completed'' w3 = (Inr (), w4)"
        and t4: "trace w4 = trace w3 @ evs4"
        and a4: "job_actions evs4 = [DbExecute (UpdateStatus ?tid ''completed'')]"
        by auto
      let ?w5 = "emit [Log INFO ''Worker {} completed track: {}'' [N (worker_id w), S ?tid]] w4"
      from tid u g Some s True u4 have "process_job ev (Some (Parsed j)) w = (Inr (), ?w5)"
        by (simp add: process_job_def Let_def)
      moreover from t2 t3 t4 have "trace ?w5 = trace w @
        ([Log INFO ''Worker {} processing track: {}'' [N (worker_id w), S ?tid]]
                @ evs1 @ [EmbedAudio ?p] @ logs @ evs3 @ evs4
                @ [Log INFO ''Worker {} completed track: {}'' [N (worker_id w), S ?tid]])"
        by (simp add: emit_def)
      moreover from a1 al a3 a4 g Some True
      have "job_actions ([Log INFO ''Worker {} processing track: {}'' [N (worker_id w), S ?tid]]
                @ evs1 @ [EmbedAudio ?p] @ logs @ evs3 @ evs4
                @ [Log INFO ''Worker {} completed track: {}'' [N (worker_id w), S ?tid]])
          = expected_actions ev j (snd (db_oracle w (Suc (db_calls w))))"
        by (simp add: job_actions_append expected_actions_def) (simp add: job_actions_def)
      ultimately show ?thesis by blast
    next
      case False
      from mark_failed_reachable [OF r3, of ?tid "''Failed to store embedding''"]
      obtain w4 evs4 where m4: "mark_failed ?tid ''Failed to store embedding'' w3 = (Inr (), w4)"
        and t4: "trace w4 = trace w3 @ evs4"
        and a4: "job_actions evs4 = [DbExecute (MarkFailed ?tid ''Failed to store embedding'')]"
        by auto
      from tid u g Some s False m4 have "process_job ev (Some (Parsed j)) w = (Inr (), w4)"
        by (simp add: process_job_def Let_def)
      moreover from t2 t3 t4 have "trace w4 = trace w @
        ([Log INFO ''Worker {} processing track: {}'' [N (worker_id w), S ?tid]]
                @ evs1 @ [EmbedAudio ?p] @ logs @ evs3 @ evs4)"
        by simp
      moreover from a1 al a3 a4 g Some False
      have "job_actions ([Log INFO ''Worker {} processing track: {}'' [N (worker_id w), S ?tid]]
                @ evs1 @ [EmbedAudio ?p] @ logs @ evs3 @ evs4)
          = expected_actions ev j (snd (db_oracle w (Suc (db_calls w))))"
        by (simp add: job_actions_append expected_actions_def) (simp add: job_actions_def)
      ultimately show ?thesis by blast
    qed
  qed
qed

section \<open>C4: mark_failed\<close>

text \<open>
  C4: whatever the database answers, \<open>mark_failed\<close> leaves the table as it was or
  applies its statement with the message cut to its first 500 characters, which are
  at most 500. When the cursor is obtained, the statement is accepted and the track
  has a row, the row gets the status \<open>failed\<close>, the cut message as its error and a
  retry count one more than before, where a NULL count is taken as 0 and so becomes 1;
  the other rows and the embeddings are untouched.
\<close>

theorem C4_mark_failed:
  "(Track (snd (mark_failed tid error w)) = Track w
      \<or> Track (snd (mark_failed tid error w)) = sql_mark_failed (Track w) tid (take 500 error))
   \<and> length (take 500 error) \<le> 500
   \<and> (fst (db_oracle w (db_calls w)) \<noteq> Unreachable \<and> snd (db_oracle w (db_calls w))
        \<and> Track w tid = Some r \<longrightarrow>
      (\<exists>w'. mark_failed tid error w = (Inr (), w')
         \<and> Track w' tid =
             Some (r\<lparr>analysisStatus := Some ''failed'',
                      analysisError := Some (take 500 error),
                      analysisRetryCount := Some (coalesce (analysisRetryCount r) 0 + 1)\<rparr>)
         \<and> (analysisRetryCount r = None \<longrightarrow> coalesce (analysisRetryCount r) 0 + 1 = 1)
         \<and> (\<forall>n. analysisRetryCount r = Some n \<longrightarrow>
                  coalesce (analysisRetryCount r) 0 + 1 = n + 1)
         \<and> (\<forall>t. t \<noteq> tid \<longrightarrow> Track w' t = Track w t)
         \<and> track_embeddings w' = track_embeddings w))"
proof (intro conjI impI)
  show "Track (snd (mark_failed tid error w)) = Track w
      \<or> Track (snd (mark_failed tid error w)) = sql_mark_failed (Track w) tid (take 500 error)"
    by (cases "fst (db_oracle w (db_calls w))")
       (simp_all add: mark_failed_def get_cursor_def Let_def emit_def)
next
  show "length (take 500 error) \<le> 500"
    by simp
next
  assume h: "fst (db_oracle w (db_calls w)) \<noteq> Unreachable \<and> snd (db_oracle w (db_calls w))
        \<and> Track w tid = Some r"
  then obtain w1 where c: "get_cursor w = (Inr True, w1)" "Track w1 = Track w"
      "track_embeddings w1 = track_embeddings w"
    using get_cursor_reachable [of w] by auto
  from h c show "\<exists>w'. mark_failed tid error w = (Inr (), w')
         \<and> Track w' tid =
             Some (r\<lparr>analysisStatus := Some ''failed'',
                      analysisError := Some (take 500 error),
                      analysisRetryCount := Some (coalesce (analysisRetryCount r) 0 + 1)\<rparr>)
         \<and> (analysisRetryCount r = None \<longrightarrow> coalesce (analysisRetryCount r) 0 + 1 = 1)
         \<and> (\<forall>n. analysisRetryCount r = Some n \<longrightarrow>
                  coalesce (analysisRetryCount r) 0 + 1 = n + 1)
         \<and> (\<forall>t. t \<noteq> tid \<longrightarrow> Track w' t = Track w t)
         \<and> track_embeddings w' = track_embeddings w"
    by (simp add: mark_failed_def emit_def sql_mark_failed_def coalesce_def)
qed

theorem C4_mark_failed_witness:
  "fst (db_oracle worker0 (db_calls worker0)) \<noteq> Unreachable
   \<and> snd (db_oracle worker0 (db_calls worker0))
   \<and> Track worker0 ''t1'' = Some fresh_row
   \<and> (\<exists>w'. mark_failed ''t1'' (replicate 600 CHR ''x'') worker0 = (Inr (), w')
        \<and> Track w' ''t1'' =
            Some \<lparr>analysisStatus = Some ''failed'',
                  analysisError = Some (replicate 500 CHR ''x''),
                  analysisRetryCount = Some 1\<rparr>)"
proof -
  have h: "fst (db_oracle worker0 (db_calls worker0)) \<noteq> Unreachable
      \<and> snd (db_oracle worker0 (db_calls worker0))
      \<and> Track worker0 ''t1'' = Some fresh_row"
    by (simp add: worker0_def)
  show ?thesis
    using h C4_mark_failed [of "''t1''" "replicate 600 CHR ''x''" worker0 fresh_row]
    by (auto simp: fresh_row_def coalesce_def)
qed

section \<open>The text handler\<close>

lemma strip_empty_iff: "strip t = [] \<longleftrightarrow> (\<forall>c \<in> set t. isspace c)"
proof
  assume "strip t = []"
  then have "\<forall>c \<in> set (dropWhile isspace t). isspace c"
    by (simp add: strip_def dropWhile_eq_Nil_conv)
  then have "dropWhile isspace t = []"
    using hd_dropWhile [of isspace t] by (cases "dropWhile isspace t") auto
  then show "\<forall>c \<in> set t. isspace c"
    by (simp add: dropWhile_eq_Nil_conv)
next
  assume "\<forall>c \<in> set t. isspace c"
  then show "strip t = []"
    by (auto simp: strip_def dest: set_dropWhileD)
qed

lemma publications_append: "publications (xs @ ys) = publications xs @ publications ys"
  by (induction xs rule: publications.induct) simp_all

lemma get_text_embedding_loaded:
  assumes "model a \<noteq> None"
  shows "\<exists>logs emb. get_text_embedding a t = Inr (logs, emb) \<and> publications logs = []"
  using assms
  by (auto simp: get_text_embedding_def split: option.splits sum.splits)

lemma no_request_id_iff:
  "no_request_id req \<longleftrightarrow> requestId req = None \<or> requestId req = Some []"
  by (simp add: no_request_id_def split: option.splits)

section \<open>C5: empty text\<close>

text \<open>
  C5: with the model loaded, for every request whose \<open>requestId\<close> is present and not
  empty and whose text is empty or consists of whitespace only,
  \<open>get_text_embedding\<close> logs "Empty text provided" and returns the error signal, and
  the one response that is published, on the channel of the request, has
  \<open>success\<close> false and carries no embedding: the value of its \<open>embedding\<close> entry is
  null, which is how the response leaves the vector out.
\<close>

theorem C5_empty_text:
  assumes "model a \<noteq> None"
    and "requestId req = Some rid" and "rid \<noteq> []"
    and "\<forall>c \<in> set (request_text req). isspace c"
  shows "get_text_embedding a (request_text req)
           = Inr ([Log ERROR ''Empty text provided for embedding'' []], None)
     \<and> publications (handle_message a (Parsed req))
           = [(TEXT_EMBED_RESPONSE_PREFIX @ rid, build_response rid None)]
     \<and> map_of (build_response rid None) ''success'' = Some (JBool False)
     \<and> map_of (build_response rid None) ''embedding'' = Some JNull"
proof -
  from assms(4) have "strip (request_text req) = []"
    by (simp add: strip_empty_iff)
  with assms(1) have g: "get_text_embedding a (request_text req)
           = Inr ([Log ERROR ''Empty text provided for embedding'' []], None)"
    by (auto simp: get_text_embedding_def)
  from assms(2,3) have "\<not> no_request_id req" and "request_request_id req = rid"
    by (simp_all add: no_request_id_def request_request_id_def)
  with g have "publications (handle_message a (Parsed req))
           = [(TEXT_EMBED_RESPONSE_PREFIX @ rid, build_response rid None)]"
    by (simp add: handle_message_def Let_def)
  with g show ?thesis
    by (simp add: build_response_def)
qed

theorem C5_empty_text_witness:
  "model (loaded base_model) \<noteq> None
   \<and> strip (request_text \<lparr>requestId = Some ''r1'', text_field = Some ''  ''\<rparr>) = []
   \<and> publications (handle_message (loaded base_model)
         (Parsed \<lparr>requestId = Some ''r1'', text_field = Some ''  ''\<rparr>))
       = [(TEXT_EMBED_RESPONSE_PREFIX @ ''r1'', build_response ''r1'' None)]
   \<and> map_of (build_response ''r1'' None) ''success'' = Some (JBool False)
   \<and> map_of (build_response ''r1'' None) ''embedding'' = Some JNull"
proof -
  have m: "model (loaded base_model) \<noteq> None"
    by (simp add: loaded_def)
  have sp: "\<forall>c \<in> set (request_text \<lparr>requestId = Some ''r1'', text_field = Some ''  ''\<rparr>). isspace c"
    by (simp add: request_text_def isspace_def)
  have r: "requestId \<lparr>requestId = Some ''r1'', text_field = Some ''  ''\<rparr> = Some ''r1''"
    and n: "''r1'' \<noteq> []"
    by simp_all
  from sp have st: "strip (request_text \<lparr>requestId = Some ''r1'', text_field = Some ''  ''\<rparr>) = []"
    by (simp only: strip_empty_iff)
  from C5_empty_text [OF m r n sp] m st show ?thesis
    by blast
qed

section \<open>C6: one response per request\<close>

text \<open>
  C6: with the model loaded, a parsed request without \<open>requestId\<close> (missing or empty)
  is logged and nothing is published; a request with a \<open>requestId\<close> gets exactly one
  response, published on the channel that is the fixed prefix followed by the
  \<open>requestId\<close>, carrying that \<open>requestId\<close> and a \<open>success\<close> flag that is true
  exactly when \<open>get_text_embedding\<close> gave a vector.
\<close>

theorem C6_one_response:
  assumes "model a \<noteq> None"
  shows "(requestId req = None \<or> requestId req = Some [] \<longrightarrow>
            handle_message a (Parsed req) = [Log WARNING ''Text embed request missing requestId'' []]
            \<and> publications (handle_message a (Parsed req)) = [])
     \<and> (requestId req = Some rid \<and> rid \<noteq> [] \<longrightarrow>
          (\<exists>logs emb. get_text_embedding a (request_text req) = Inr (logs, emb)
             \<and> publications (handle_message a (Parsed req))
                 = [(TEXT_EMBED_RESPONSE_PREFIX @ rid, build_response rid emb)]
             \<and> map_of (build_response rid emb) ''requestId'' = Some (JStr rid)
             \<and> map_of (build_response rid emb) ''success'' = Some (JBool (emb \<noteq> None))))"
proof (intro conjI impI)
  assume "requestId req = None \<or> requestId req = Some []"
  then have n: "no_request_id req" by (simp add: no_request_id_iff)
  then show "handle_message a (Parsed req) = [Log WARNING ''Text embed request missing requestId'' []]"
    by (simp add: handle_message_def)
  from n show "publications (handle_message a (Parsed req)) = []"
    by (simp add: handle_message_def)
next
  assume r: "requestId req = Some rid \<and> rid \<noteq> []"
  then have n: "\<not> no_request_id req" and i: "request_request_id req = rid"
    by (simp_all add: no_request_id_def request_request_id_def)
  from get_text_embedding_loaded [OF assms, of "request_text req"]
  obtain logs emb where g: "get_text_embedding a (request_text req) = Inr (logs, emb)"
    and l: "publications logs = []" by blast
  from n i g l have "publications (handle_message a (Parsed req))
                 = [(TEXT_EMBED_RESPONSE_PREFIX @ rid, build_response rid emb)]"
    by (simp add: handle_message_def Let_def publications_append)
  with g show "\<exists>logs emb. get_text_embedding a (request_text req) = Inr (logs, emb)
             \<and> publications (handle_message a (Parsed req))
                 = [(TEXT_EMBED_RESPONSE_PREFIX @ rid, build_response rid emb)]
             \<and> map_of (build_response rid emb) ''requestId'' = Some (JStr rid)
             \<and> map_of (build_response rid emb) ''success'' = Some (JBool (emb \<noteq> None))"
    by (simp add: build_response_def)
qed

theorem C6_one_response_witness:
  "model (loaded base_model) \<noteq> None
   \<and> requestId request1 = Some ''r1''
   \<and> publications (handle_message (loaded base_model) (Parsed request1))
       = [(''audio:text:embed:response:r1'',
           build_response ''r1'' (Some (pad_embedding (replicate 512 2))))]
   \<and> map_of (build_response ''r1'' (Some (pad_embedding (replicate 512 2)))) ''success''
       = Some (JBool True)
   \<and> publications (handle_message (loaded base_model)
         (Parsed \<lparr>requestId = None, text_field = Some ''upbeat synth''\<rparr>)) = []"
proof -
  have m: "model (loaded base_model) \<noteq> None"
    by (simp add: loaded_def)
  have g: "get_text_embedding (loaded base_model) (request_text request1)
             = Inr ([], Some (pad_embedding (replicate 512 2)))"
    by (simp add: get_text_embedding_def loaded_def base_model_def first_row_def strip_def
          isspace_def request1_def request_text_def)
  have r: "requestId request1 = Some ''r1''"
    by (simp add: request1_def)
  show ?thesis
    using m g r C6_one_response [OF m, of request1 "''r1''"]
      C6_one_response [OF m, of "\<lparr>requestId = None, text_field = Some ''upbeat synth''\<rparr>"]
    by (auto simp: TEXT_EMBED_RESPONSE_PREFIX_def)
qed

section \<open>C2: the status writes of one job\<close>

lemma expected_actions_shape:
  assumes "model (the_analyzer ev) \<noteq> None" and "trackId j = Some tid"
  shows "\<exists>mid final.
      expected_actions ev j b =
        [DbExecute (UpdateStatus tid ''processing''), EmbedAudio (resolve_path ev j)] @ mid @ [final]
      \<and> (mid = [] \<or> (\<exists>v. mid = [DbExecute (Upsert tid v MODEL_VERSION (utcnow ev))]))
      \<and> (final = DbExecute (UpdateStatus tid ''completed'') \<or> (\<exists>msg. final = DbExecute (MarkFailed tid msg)))
      \<and> (final = DbExecute (UpdateStatus tid ''completed'') \<longleftrightarrow>
           (\<exists>logs v. get_audio_embedding (the_analyzer ev) (path_exists ev) (resolve_path ev j)
                        = Inr (logs, Some v)) \<and> b)"
proof -
  from get_audio_embedding_loaded [OF assms(1)]
  obtain logs r where g: "get_audio_embedding (the_analyzer ev) (path_exists ev) (resolve_path ev j)
                            = Inr (logs, r)"
    by blast
  from assms(2) have t: "job_track_id j = tid"
    by (simp add: job_track_id_def)
  show ?thesis
  proof (cases r)
    case None
    with g t show ?thesis by (simp add: expected_actions_def)
  next
    case (Some v)
    with g t show ?thesis by (cases b) (simp_all add: expected_actions_def)
  qed
qed

text \<open>
  C2, as stated, fails: when the database cannot be reached at the moment the embedding is
  to be stored, \<^verbatim>\<open>get_cursor\<close> raises, the exception leaves \<^verbatim>\<open>_process_job\<close>, and
  the job has written \<open>processing\<close> and no terminal status.
\<close>

theorem C2_counterexample:
  "trackId job1 = Some ''t1''
   \<and> fst (process_job env0 (Some (Parsed job1)) worker_lost)
       = Inl (DatabaseError ''could not connect to server'')
   \<and> job_actions (new_events worker_lost (snd (process_job env0 (Some (Parsed job1)) worker_lost)))
       = [DbExecute (UpdateStatus ''t1'' ''processing''), EmbedAudio ''/music/album/song.mp3'']
   \<and> map_option analysisStatus (Track (snd (process_job env0 (Some (Parsed job1)) worker_lost)) ''t1'')
       = Some (Some ''processing'')"
  by (simp add: process_job_def job1_def env0_def worker_lost_def worker0_def
        no_track_id_def job_track_id_def job_file_path_def resolve_path_def
        normalize_path_def path_join_def startswith_slash_def endswith_slash_def
        update_track_status_def store_embedding_def get_cursor_def emit_def Let_def
        get_audio_embedding_def loaded_def base_model_def first_row_def
        sql_update_status_def fresh_row_def new_events_def job_actions_def)

text \<open>
  C2, amended: for every dequeued job with a non-empty \<open>trackId\<close>, processed with the
  model loaded and with no connection-level error raised by the database calls of the
  job (every cursor is obtained, and the rollback of a rejected statement succeeds), the
  worker first writes the status \<open>processing\<close>, then calls the embedding, and then
  writes exactly one terminal outcome: \<open>completed\<close> if and only if the embedding call
  gave a vector and the upsert was accepted (\<open>store_embedding\<close> returned true), and
  \<open>mark_failed\<close> otherwise. The status \<open>processing\<close> is written once, before
  everything else. Here \<open>snd (db_oracle w (Suc (db_calls w)))\<close> is the answer of the
  database to the second statement of the job, which is the upsert when there is one.
\<close>

theorem C2_job_outcome:
  assumes "model (the_analyzer ev) \<noteq> None"
    and "trackId j = Some tid" and "tid \<noteq> []"
    and "\<forall>i. db_call_ok w i"
  shows "\<exists>w' mid final.
      process_job ev (Some (Parsed j)) w = (Inr (), w')
      \<and> job_actions (new_events w w') =
          [DbExecute (UpdateStatus tid ''processing''), EmbedAudio (resolve_path ev j)] @ mid @ [final]
      \<and> (mid = [] \<or> (\<exists>v. mid = [DbExecute (Upsert tid v MODEL_VERSION (utcnow ev))]))
      \<and> (final = DbExecute (UpdateStatus tid ''completed'') \<or> (\<exists>msg. final = DbExecute (MarkFailed tid msg)))
      \<and> (final = DbExecute (UpdateStatus tid ''completed'') \<longleftrightarrow>
           (\<exists>logs v. get_audio_embedding (the_analyzer ev) (path_exists ev) (resolve_path ev j)
                        = Inr (logs, Some v))
           \<and> snd (db_oracle w (Suc (db_calls w))))
      \<and> length (filter (is_terminal tid) (job_actions (new_events w w'))) = 1
      \<and> length (filter (\<lambda>e. e = DbExecute (UpdateStatus tid ''processing''))
                  (job_actions (new_events w w'))) = 1"
proof -
  from assms(2,3) have n: "\<not> no_track_id j"
    by (simp add: no_track_id_def)
  from process_job_actions [OF assms(1) n assms(4)]
  obtain w' evs where p: "process_job ev (Some (Parsed j)) w = (Inr (), w')"
    and t: "trace w' = trace w @ evs"
    and a: "job_actions evs = expected_actions ev j (snd (db_oracle w (Suc (db_calls w))))"
    by blast
  from new_events_append [OF t] a
  have e: "job_actions (new_events w w') = expected_actions ev j (snd (db_oracle w (Suc (db_calls w))))"
    by simp
  from expected_actions_shape [OF assms(1,2), of "snd (db_oracle w (Suc (db_calls w)))"]
  obtain mid final where s:
    "expected_actions ev j (snd (db_oracle w (Suc (db_calls w)))) =
        [DbExecute (UpdateStatus tid ''processing''), EmbedAudio (resolve_path ev j)] @ mid @ [final]"
    and m: "mid = [] \<or> (\<exists>v. mid = [DbExecute (Upsert tid v MODEL_VERSION (utcnow ev))])"
    and tm: "final = DbExecute (UpdateStatus tid ''completed'') \<or> (\<exists>msg. final = DbExecute (MarkFailed tid msg))"
    and iff: "final = DbExecute (UpdateStatus tid ''completed'') \<longleftrightarrow>
           (\<exists>logs v. get_audio_embedding (the_analyzer ev) (path_exists ev) (resolve_path ev j)
                        = Inr (logs, Some v))
           \<and> snd (db_oracle w (Suc (db_calls w)))"
    by blast
  from m tm have c1: "length (filter (is_terminal tid)
      ([DbExecute (UpdateStatus tid ''processing''), EmbedAudio (resolve_path ev j)] @ mid @ [final])) = 1"
    by auto
  from m tm have c2: "length (filter (\<lambda>e. e = DbExecute (UpdateStatus tid ''processing''))
      ([DbExecute (UpdateStatus tid ''processing''), EmbedAudio (resolve_path ev j)] @ mid @ [final])) = 1"
    by auto
  from p e s m tm iff c1 c2 show ?thesis
    by (intro exI [of _ w'] exI [of _ mid] exI [of _ final]) simp
qed

theorem C2_job_outcome_witness:
  "model (the_analyzer env0) \<noteq> None
   \<and> trackId job1 = Some ''t1''
   \<and> (\<forall>i. db_call_ok worker0 i)
   \<and> (\<exists>w' mid final.
        process_job env0 (Some (Parsed job1)) worker0 = (Inr (), w')
        \<and> job_actions (new_events worker0 w') =
            [DbExecute (UpdateStatus ''t1'' ''processing''), EmbedAudio (resolve_path env0 job1)]
            @ mid @ [final]
        \<and> (final = DbExecute (UpdateStatus ''t1'' ''completed'') \<longleftrightarrow>
             (\<exists>logs v. get_audio_embedding (the_analyzer env0) (path_exists env0)
                          (resolve_path env0 job1) = Inr (logs, Some v))
             \<and> snd (db_oracle worker0 (Suc (db_calls worker0))))
        \<and> length (filter (is_terminal ''t1'') (job_actions (new_events worker0 w'))) = 1)"
proof -
  have h1: "model (the_analyzer env0) \<noteq> None"
    by (simp add: env0_def loaded_def)
  have h2: "trackId job1 = Some ''t1''"
    by (simp add: job1_def)
  have h3: "''t1'' \<noteq> []"
    by simp
  have h4: "\<forall>i. db_call_ok worker0 i"
    by (simp add: worker0_def db_call_ok_def)
  from C2_job_outcome [OF h1 h2 h3 h4] h1 h2 h4 show ?thesis
    by blast
qed

section \<open>C9: a job without trackId\<close>

text \<open>
  C9: a dequeued job whose \<open>trackId\<close> is missing or empty is logged with a warning and
  dropped: the call returns normally, adds that one log line and nothing else, sends no
  statement to the database, does not call the embedding, takes no cursor, and leaves
  both tables as they were.
\<close>

theorem C9_absent_track_id:
  assumes "trackId j = None \<or> trackId j = Some []"
  shows "process_job ev (Some (Parsed j)) w
           = (Inr (), emit [Log WARNING ''Invalid job (no trackId): {}'' [J j]] w)
     \<and> Track (snd (process_job ev (Some (Parsed j)) w)) = Track w
     \<and> track_embeddings (snd (process_job ev (Some (Parsed j)) w)) = track_embeddings w
     \<and> db_calls (snd (process_job ev (Some (Parsed j)) w)) = db_calls w
     \<and> new_events w (snd (process_job ev (Some (Parsed j)) w))
         = [Log WARNING ''Invalid job (no trackId): {}'' [J j]]
     \<and> job_actions (new_events w (snd (process_job ev (Some (Parsed j)) w))) = []"
proof -
  from assms have "no_track_id j"
    by (simp add: no_track_id_iff)
  then have "process_job ev (Some (Parsed j)) w
           = (Inr (), emit [Log WARNING ''Invalid job (no trackId): {}'' [J j]] w)"
    by (simp add: process_job_def)
  then show ?thesis
    by (simp add: emit_def new_events_def job_actions_def)
qed

theorem C9_absent_track_id_witness:
  "(trackId \<lparr>trackId = Some [], filePath = Some ''album/song.mp3''\<rparr> = None
      \<or> trackId \<lparr>trackId = Some [], filePath = Some ''album/song.mp3''\<rparr> = Some [])
   \<and> Track (snd (process_job env0
        (Some (Parsed \<lparr>trackId = Some [], filePath = Some ''album/song.mp3''\<rparr>)) worker0))
       = Track worker0
   \<and> job_actions (new_events worker0 (snd (process_job env0
        (Some (Parsed \<lparr>trackId = Some [], filePath = Some ''album/song.mp3''\<rparr>)) worker0))) = []"
proof -
  have h: "trackId \<lparr>trackId = Some [], filePath = Some ''album/song.mp3''\<rparr> = None
      \<or> trackId \<lparr>trackId = Some [], filePath = Some ''album/song.mp3''\<rparr> = Some []"
    by simp
  from C9_absent_track_id [OF h, of env0 worker0] h show ?thesis
    by blast
qed

section \<open>C10: path resolution\<close>

lemma endswith_slash_iff: "endswith_slash a \<longleftrightarrow> a \<noteq> [] \<and> last a = CHR ''/''"
  by (cases a rule: rev_cases) (simp_all add: endswith_slash_def)

lemma startswith_slash_iff: "startswith_slash b \<longleftrightarrow> b \<noteq> [] \<and> hd b = CHR ''/''"
  by (cases b) (simp_all add: startswith_slash_def)

text \<open>
  C10, as stated, fails in one part: a job with no \<open>filePath\<close> does not resolve to the
  media root itself. \<^verbatim>\<open>os.path.join('/music', '')\<close> is \<^verbatim>\<open>'/music/'\<close>: the join
  appends a separator to a root that does not end with one.
\<close>

theorem C10_counterexample:
  "filePath job_no_path = None
   \<and> MUSIC_PATH env0 = ''/music''
   \<and> resolve_path env0 job_no_path = ''/music/''
   \<and> resolve_path env0 job_no_path \<noteq> MUSIC_PATH env0"
  by (simp add: job_no_path_def env0_def resolve_path_def job_file_path_def
        normalize_path_def path_join_def startswith_slash_def endswith_slash_def)

text \<open>
  C10, amended: path resolution does not confine jobs to the media root. The path given
  to \<open>get_audio_embedding\<close> is the \<open>filePath\<close> with every backslash turned into a
  slash, joined to the media root as \<^verbatim>\<open>os.path.join\<close> does. When the \<open>filePath\<close>
  begins with a slash or a backslash, the result is the normalized \<open>filePath\<close>
  unchanged and the media root is discarded. Otherwise the result is the media root,
  then a separator unless the root is empty or already ends with one, then the
  normalized \<open>filePath\<close>. A job with no \<open>filePath\<close> resolves to the media root
  followed by that separator (\<^verbatim>\<open>'/music/'\<close> for the root \<^verbatim>\<open>'/music'\<close>), not to the
  root string itself, and is processed like any other job: with the model loaded and
  no connection-level error, its first two actions are the status \<open>processing\<close> and
  the embedding call on the resolved path.
\<close>

theorem C10_path_resolution:
  "(filePath j = Some fp \<and> fp \<noteq> [] \<and> (hd fp = CHR ''/'' \<or> hd fp = CHR 0x5C) \<longrightarrow>
      resolve_path ev j = map (\<lambda>c. if c = CHR 0x5C then CHR ''/'' else c) fp)
   \<and> (filePath j = Some fp \<and> (fp = [] \<or> (hd fp \<noteq> CHR ''/'' \<and> hd fp \<noteq> CHR 0x5C)) \<longrightarrow>
      resolve_path ev j =
        (if MUSIC_PATH ev = [] \<or> last (MUSIC_PATH ev) = CHR ''/''
         then MUSIC_PATH ev
         else MUSIC_PATH ev @ ''/'')
        @ map (\<lambda>c. if c = CHR 0x5C then CHR ''/'' else c) fp)
   \<and> (filePath j = None \<longrightarrow>
      resolve_path ev j =
        (if MUSIC_PATH ev = [] \<or> last (MUSIC_PATH ev) = CHR ''/''
         then MUSIC_PATH ev
         else MUSIC_PATH ev @ ''/''))
   \<and> (model (the_analyzer ev) \<noteq> None \<and> trackId j = Some tid \<and> tid \<noteq> []
        \<and> (\<forall>i. db_call_ok w i) \<longrightarrow>
      take 2 (job_actions (new_events w (snd (process_job ev (Some (Parsed j)) w))))
        = [DbExecute (UpdateStatus tid ''processing''), EmbedAudio (resolve_path ev j)])"
proof (intro conjI impI)
  assume h: "filePath j = Some fp \<and> fp \<noteq> [] \<and> (hd fp = CHR ''/'' \<or> hd fp = CHR 0x5C)"
  then obtain c cs where fp: "fp = c # cs" and c: "c = CHR ''/'' \<or> c = CHR 0x5C"
    by (cases fp) auto
  from h fp c show "resolve_path ev j = map (\<lambda>c. if c = CHR 0x5C then CHR ''/'' else c) fp"
    by (auto simp: resolve_path_def job_file_path_def normalize_path_def path_join_def
          startswith_slash_def)
next
  assume h: "filePath j = Some fp \<and> (fp = [] \<or> (hd fp \<noteq> CHR ''/'' \<and> hd fp \<noteq> CHR 0x5C))"
  then have n: "\<not> startswith_slash (normalize_path fp)"
    by (cases fp) (auto simp: startswith_slash_def normalize_path_def)
  from h n show "resolve_path ev j =
        (if MUSIC_PATH ev = [] \<or> last (MUSIC_PATH ev) = CHR ''/''
         then MUSIC_PATH ev
         else MUSIC_PATH ev @ ''/'')
        @ map (\<lambda>c. if c = CHR 0x5C then CHR ''/'' else c) fp"
    by (auto simp: resolve_path_def job_file_path_def path_join_def endswith_slash_iff
          normalize_path_def)
next
  assume "filePath j = None"
  then show "resolve_path ev j =
        (if MUSIC_PATH ev = [] \<or> last (MUSIC_PATH ev) = CHR ''/''
         then MUSIC_PATH ev
         else MUSIC_PATH ev @ ''/'')"
    by (auto simp: resolve_path_def job_file_path_def path_join_def normalize_path_def
          startswith_slash_def endswith_slash_iff)
next
  assume h: "model (the_analyzer ev) \<noteq> None \<and> trackId j = Some tid \<and> tid \<noteq> []
        \<and> (\<forall>i. db_call_ok w i)"
  then have n: "\<not> no_track_id j" and t: "job_track_id j = tid"
    by (simp_all add: no_track_id_def job_track_id_def)
  from h have l: "model (the_analyzer ev) \<noteq> None"
    and r: "\<forall>i. db_call_ok w i"
    by simp_all
  from process_job_actions [OF l n r]
  obtain w' evs where p: "process_job ev (Some (Parsed j)) w = (Inr (), w')"
    and tr: "trace w' = trace w @ evs"
    and a: "job_actions evs = expected_actions ev j (snd (db_oracle w (Suc (db_calls w))))"
    by blast
  from new_events_append [OF tr] p a t
  show "take 2 (job_actions (new_events w (snd (process_job ev (Some (Parsed j)) w))))
        = [DbExecute (UpdateStatus tid ''processing''), EmbedAudio (resolve_path ev j)]"
    by (simp add: expected_actions_def)
qed

theorem C10_path_resolution_witness:
  "resolve_path env0 job_win_abs = ''/srv/a.mp3''
   \<and> resolve_path env0 job_win_rel = ''/music/album/song.mp3''
   \<and> resolve_path env_slash job1 = ''/music/album/song.mp3''
   \<and> resolve_path env0 job_no_path = ''/music/''
   \<and> resolve_path env_slash job_no_path = ''/music/''
   \<and> take 2 (job_actions (new_events worker0
        (snd (process_job env0 (Some (Parsed job_no_path)) worker0))))
       = [DbExecute (UpdateStatus ''t1'' ''processing''), EmbedAudio ''/music/'']"
proof -
  have a: "filePath job_win_abs = Some win_abs_path \<and> win_abs_path \<noteq> []
      \<and> (hd win_abs_path = CHR ''/'' \<or> hd win_abs_path = CHR 0x5C)"
    by (simp add: job_win_abs_def win_abs_path_def)
  from a C10_path_resolution [where j = job_win_abs and fp = win_abs_path and ev = env0]
  have "resolve_path env0 job_win_abs
          = map (\<lambda>c. if c = CHR 0x5C then CHR ''/'' else c) win_abs_path"
    by blast
  then have r1: "resolve_path env0 job_win_abs = ''/srv/a.mp3''"
    by (simp add: win_abs_path_def)
  have b: "filePath job_win_rel = Some win_rel_path
      \<and> (win_rel_path = [] \<or> (hd win_rel_path \<noteq> CHR ''/'' \<and> hd win_rel_path \<noteq> CHR 0x5C))"
    by (simp add: job_win_rel_def win_rel_path_def)
  from b C10_path_resolution [where j = job_win_rel and fp = win_rel_path and ev = env0]
  have "resolve_path env0 job_win_rel =
        (if MUSIC_PATH env0 = [] \<or> last (MUSIC_PATH env0) = CHR ''/''
         then MUSIC_PATH env0
         else MUSIC_PATH env0 @ ''/'')
        @ map (\<lambda>c. if c = CHR 0x5C then CHR ''/'' else c) win_rel_path"
    by blast
  then have r2: "resolve_path env0 job_win_rel = ''/music/album/song.mp3''"
    by (simp add: win_rel_path_def env0_def)
  have c: "filePath job1 = Some ''album/song.mp3''
      \<and> (''album/song.mp3'' = [] \<or> (hd ''album/song.mp3'' \<noteq> CHR ''/''
            \<and> hd ''album/song.mp3'' \<noteq> CHR 0x5C))"
    by (simp add: job1_def)
  from c C10_path_resolution [where j = job1 and fp = "''album/song.mp3''" and ev = env_slash]
  have "resolve_path env_slash job1 =
        (if MUSIC_PATH env_slash = [] \<or> last (MUSIC_PATH env_slash) = CHR ''/''
         then MUSIC_PATH env_slash
         else MUSIC_PATH env_slash @ ''/'')
        @ map (\<lambda>c. if c = CHR 0x5C then CHR ''/'' else c) ''album/song.mp3''"
    by blast
  then have r3: "resolve_path env_slash job1 = ''/music/album/song.mp3''"
    by (simp add: env_slash_def env0_def)
  have e: "filePath job_no_path = None"
    by (simp add: job_no_path_def)
  note t = C10_path_resolution [where j = job_no_path and ev = env0 and tid = "''t1''"
      and w = worker0]
  from e t
  have "resolve_path env0 job_no_path =
        (if MUSIC_PATH env0 = [] \<or> last (MUSIC_PATH env0) = CHR ''/''
         then MUSIC_PATH env0
         else MUSIC_PATH env0 @ ''/'')"
    by blast
  then have r4: "resolve_path env0 job_no_path = ''/music/''"
    by (simp add: env0_def)
  from e C10_path_resolution [where j = job_no_path and ev = env_slash]
  have "resolve_path env_slash job_no_path =
        (if MUSIC_PATH env_slash = [] \<or> last (MUSIC_PATH env_slash) = CHR ''/''
         then MUSIC_PATH env_slash
         else MUSIC_PATH env_slash @ ''/'')"
    by blast
  then have r5: "resolve_path env_slash job_no_path = ''/music/''"
    by (simp add: env_slash_def env0_def)
  have d: "model (the_analyzer env0) \<noteq> None
      \<and> trackId job_no_path = Some ''t1'' \<and> ''t1'' \<noteq> []
      \<and> (\<forall>i. db_call_ok worker0 i)"
    by (simp add: env0_def loaded_def worker0_def job_no_path_def db_call_ok_def)
  from d t
  have "take 2 (job_actions (new_events worker0
        (snd (process_job env0 (Some (Parsed job_no_path)) worker0))))
       = [DbExecute (UpdateStatus ''t1'' ''processing''),
          EmbedAudio (resolve_path env0 job_no_path)]"
    by blast
  with r4 have r6: "take 2 (job_actions (new_events worker0
        (snd (process_job env0 (Some (Parsed job_no_path)) worker0))))
       = [DbExecute (UpdateStatus ''t1'' ''processing''), EmbedAudio ''/music/'']"
    by simp
  from r1 r2 r3 r4 r5 r6 show ?thesis
    by blast
qed

section \<open>C7: the upsert\<close>

lemma sql_upsert_ids:
  "map track_id (sql_upsert rows tid v ver ts) =
     (if tid \<in> set (map track_id rows) then map track_id rows else map track_id rows @ [tid])"
proof -
  have "map track_id (map (\<lambda>r. if track_id r = tid
                     then r\<lparr>embedding := v, model_version := ver, analyzed_at := ts\<rparr>
                     else r) rows) = map track_id rows"
    by (induction rows) simp_all
  then show ?thesis
    by (auto simp: sql_upsert_def list_ex_iff)
qed

lemma sql_upsert_distinct:
  "distinct (map track_id rows) \<Longrightarrow> distinct (map track_id (sql_upsert rows tid v ver ts))"
  by (simp add: sql_upsert_ids)

lemma filter_absent:
  "tid \<notin> set (map track_id rows) \<Longrightarrow> filter (\<lambda>r. track_id r = tid) (map f rows) = []
     \<longleftrightarrow> (\<forall>r \<in> set rows. track_id (f r) \<noteq> tid)"
  by (induction rows) auto

lemma upsert_present:
  assumes "distinct (map track_id rows)" and "tid \<in> set (map track_id rows)"
  shows "filter (\<lambda>r. track_id r = tid)
           (map (\<lambda>r. if track_id r = tid
                      then r\<lparr>embedding := v, model_version := ver, analyzed_at := ts\<rparr>
                      else r) rows)
         = [\<lparr>track_id = tid, embedding = v, model_version = ver, analyzed_at = ts\<rparr>]"
  using assms
proof (induction rows)
  case Nil
  then show ?case by simp
next
  case (Cons r rs)
  show ?case
  proof (cases "track_id r = tid")
    case True
    with Cons.prems have "tid \<notin> set (map track_id rs)" by auto
    then have "filter (\<lambda>r. track_id r = tid)
           (map (\<lambda>r. if track_id r = tid
                      then r\<lparr>embedding := v, model_version := ver, analyzed_at := ts\<rparr>
                      else r) rs) = []"
      by (induction rs) auto
    with True show ?thesis by (cases r) simp
  next
    case False
    with Cons show ?thesis by auto
  qed
qed

lemma sql_upsert_row:
  assumes "distinct (map track_id rows)"
  shows "filter (\<lambda>r. track_id r = tid) (sql_upsert rows tid v ver ts)
           = [\<lparr>track_id = tid, embedding = v, model_version = ver, analyzed_at = ts\<rparr>]"
proof (cases "tid \<in> set (map track_id rows)")
  case True
  then have "list_ex (\<lambda>r. track_id r = tid) rows"
    by (auto simp: list_ex_iff)
  with upsert_present [OF assms True] show ?thesis
    by (simp add: sql_upsert_def)
next
  case False
  then have "\<not> list_ex (\<lambda>r. track_id r = tid) rows"
    by (auto simp: list_ex_iff)
  moreover from False have "filter (\<lambda>r. track_id r = tid) rows = []"
    by (induction rows) auto
  ultimately show ?thesis
    by (simp add: sql_upsert_def)
qed

lemma sql_upsert_others:
  "filter (\<lambda>r. track_id r \<noteq> tid) (sql_upsert rows tid v ver ts)
     = filter (\<lambda>r. track_id r \<noteq> tid) rows"
proof -
  have "filter (\<lambda>r. track_id r \<noteq> tid)
           (map (\<lambda>r. if track_id r = tid
                      then r\<lparr>embedding := v, model_version := ver, analyzed_at := ts\<rparr>
                      else r) rows)
         = filter (\<lambda>r. track_id r \<noteq> tid) rows"
    by (induction rows) simp_all
  then show ?thesis
    by (simp add: sql_upsert_def)
qed

lemma store_embedding_rollback_raises:
  assumes "fst (db_oracle w (db_calls w)) \<noteq> Unreachable"
    and "\<not> snd (db_oracle w (db_calls w))"
    and "\<not> rollback_ok w (db_calls w)"
  shows "fst (store_embedding now tid v w) = Inl rollback_error
     \<and> track_embeddings (snd (store_embedding now tid v w)) = track_embeddings w"
  using assms
  by (cases "fst (db_oracle w (db_calls w))")
     (simp_all add: get_cursor_def store_embedding_def Let_def emit_def)

lemma store_embedding_rejected:
  assumes "fst (db_oracle w (db_calls w)) \<noteq> Unreachable"
    and "\<not> snd (db_oracle w (db_calls w))"
    and "rollback_ok w (db_calls w)"
  shows "fst (get_cursor w) = Inr False
     \<and> store_embedding now tid v w =
         (Inr False,
          emit [DbExecute (Upsert tid v MODEL_VERSION now),
                Log ERROR ''Failed to store embedding for {}: {}'' [S tid, E stmt_error],
                PrintExc, DbRollback, CursorClose] (snd (get_cursor w)))"
  using assms
  by (cases "fst (db_oracle w (db_calls w))")
     (simp_all add: get_cursor_def store_embedding_def Let_def)

text \<open>
  C7: on a table that has at most one row per track (the primary key), two calls of
  \<open>store_embedding\<close> for the same track, neither of which meets a connection-level
  error (each gets its cursor, and the rollback of a rejected statement succeeds), return
  the booleans that say whether their statements were accepted. When the second is
  accepted the table holds exactly one row for the track, with the second vector, the
  model version and the second timestamp, whatever the first call did; the rows of the
  other tracks are untouched and the key stays unique. The model version is the
  constant \<^verbatim>\<open>'laion-clap-music-v1'\<close>. When a statement is rejected
  the method returns false, the table is as before, and what follows the statement is
  the error log, the traceback, a rollback and the closing of the cursor: no reconnect.
\<close>

theorem C7_upsert:
  assumes d: "distinct (map track_id (track_embeddings w))"
    and r1: "db_call_ok w (db_calls w)"
    and r2: "db_call_ok w (Suc (db_calls w))"
  shows "MODEL_VERSION = ''laion-clap-music-v1'' \<and> (\<exists>w1 w2.
      store_embedding t1 tid v1 w = (Inr (snd (db_oracle w (db_calls w))), w1)
      \<and> store_embedding t2 tid v2 w1 = (Inr (snd (db_oracle w (Suc (db_calls w)))), w2)
      \<and> distinct (map track_id (track_embeddings w2))
      \<and> filter (\<lambda>r. track_id r \<noteq> tid) (track_embeddings w2)
          = filter (\<lambda>r. track_id r \<noteq> tid) (track_embeddings w)
      \<and> (snd (db_oracle w (Suc (db_calls w))) \<longrightarrow>
           filter (\<lambda>r. track_id r = tid) (track_embeddings w2)
             = [\<lparr>track_id = tid, embedding = v2, model_version = MODEL_VERSION, analyzed_at = t2\<rparr>])
      \<and> (\<not> snd (db_oracle w (Suc (db_calls w))) \<longrightarrow>
           track_embeddings w2 = track_embeddings w1
           \<and> fst (get_cursor w1) = Inr False
           \<and> trace w2 = trace (snd (get_cursor w1)) @
               [DbExecute (Upsert tid v2 MODEL_VERSION t2),
                Log ERROR ''Failed to store embedding for {}: {}'' [S tid, E stmt_error],
                PrintExc, DbRollback, CursorClose]))"
proof -
  from store_embedding_reachable [OF r1, of t1 tid v1]
  obtain w1 where s1: "store_embedding t1 tid v1 w = (Inr (snd (db_oracle w (db_calls w))), w1)"
    and e1: "track_embeddings w1 = (if snd (db_oracle w (db_calls w))
                then sql_upsert (track_embeddings w) tid v1 MODEL_VERSION t1
                else track_embeddings w)"
    and o1: "db_oracle w1 = db_oracle w" and b1: "rollback_ok w1 = rollback_ok w"
    and c1: "db_calls w1 = Suc (db_calls w)"
    by blast
  from d e1 have d1: "distinct (map track_id (track_embeddings w1))"
    by (simp add: sql_upsert_distinct)
  from e1 have f1: "filter (\<lambda>r. track_id r \<noteq> tid) (track_embeddings w1)
          = filter (\<lambda>r. track_id r \<noteq> tid) (track_embeddings w)"
    by (simp add: sql_upsert_others)
  from r2 o1 b1 c1 have r2': "db_call_ok w1 (db_calls w1)"
    by (simp add: db_call_ok_def)
  from store_embedding_reachable [OF r2', of t2 tid v2] o1 c1
  obtain w2 where s2: "store_embedding t2 tid v2 w1 = (Inr (snd (db_oracle w (Suc (db_calls w)))), w2)"
    and e2: "track_embeddings w2 = (if snd (db_oracle w (Suc (db_calls w)))
                then sql_upsert (track_embeddings w1) tid v2 MODEL_VERSION t2
                else track_embeddings w1)"
    by auto
  from d1 e2 have d2: "distinct (map track_id (track_embeddings w2))"
    by (simp add: sql_upsert_distinct)
  from e2 f1 have f2: "filter (\<lambda>r. track_id r \<noteq> tid) (track_embeddings w2)
          = filter (\<lambda>r. track_id r \<noteq> tid) (track_embeddings w)"
    by (simp add: sql_upsert_others)
  from e2 sql_upsert_row [OF d1, of tid v2 MODEL_VERSION t2]
  have row: "snd (db_oracle w (Suc (db_calls w))) \<longrightarrow>
           filter (\<lambda>r. track_id r = tid) (track_embeddings w2)
             = [\<lparr>track_id = tid, embedding = v2, model_version = MODEL_VERSION, analyzed_at = t2\<rparr>]"
    by simp
  have rej: "\<not> snd (db_oracle w (Suc (db_calls w))) \<longrightarrow>
           track_embeddings w2 = track_embeddings w1
           \<and> fst (get_cursor w1) = Inr False
           \<and> trace w2 = trace (snd (get_cursor w1)) @
               [DbExecute (Upsert tid v2 MODEL_VERSION t2),
                Log ERROR ''Failed to store embedding for {}: {}'' [S tid, E stmt_error],
                PrintExc, DbRollback, CursorClose]"
  proof
    assume n: "\<not> snd (db_oracle w (Suc (db_calls w)))"
    with o1 c1 have n': "\<not> snd (db_oracle w1 (db_calls w1))"
      by simp
    from r2' n' have u: "fst (db_oracle w1 (db_calls w1)) \<noteq> Unreachable"
      and k: "rollback_ok w1 (db_calls w1)"
      by (simp_all add: db_call_ok_def)
    from store_embedding_rejected [OF u n' k, of t2 tid v2] s2 e2 n
    show "track_embeddings w2 = track_embeddings w1
           \<and> fst (get_cursor w1) = Inr False
           \<and> trace w2 = trace (snd (get_cursor w1)) @
               [DbExecute (Upsert tid v2 MODEL_VERSION t2),
                Log ERROR ''Failed to store embedding for {}: {}'' [S tid, E stmt_error],
                PrintExc, DbRollback, CursorClose]"
      by (auto simp: emit_def)
  qed
  have mv: "MODEL_VERSION = ''laion-clap-music-v1''"
    by (simp add: MODEL_VERSION_def)
  from mv s1 s2 d2 f2 row rej show ?thesis
    by blast
qed

theorem C7_upsert_witness:
  "distinct (map track_id (track_embeddings worker0))
   \<and> db_call_ok worker0 (db_calls worker0)
   \<and> db_call_ok worker0 (Suc (db_calls worker0))
   \<and> (\<exists>w1 w2.
        store_embedding 10 ''t1'' [1] worker0 = (Inr True, w1)
        \<and> store_embedding 20 ''t1'' [2] w1 = (Inr True, w2)
        \<and> filter (\<lambda>r. track_id r = ''t1'') (track_embeddings w2)
            = [\<lparr>track_id = ''t1'', embedding = [2], model_version = MODEL_VERSION,
                analyzed_at = 20\<rparr>])
   \<and> db_call_ok worker_reject (db_calls worker_reject)
   \<and> db_call_ok worker_reject (Suc (db_calls worker_reject))
   \<and> (\<exists>w1 w2.
        store_embedding 10 ''t1'' [1] worker_reject = (Inr True, w1)
        \<and> store_embedding 20 ''t1'' [2] w1 = (Inr False, w2)
        \<and> track_embeddings w2 = track_embeddings w1)"
proof -
  have h1: "distinct (map track_id (track_embeddings worker0))"
    by (simp add: worker0_def)
  have h2: "db_call_ok worker0 (db_calls worker0)"
    by (simp add: worker0_def db_call_ok_def)
  have h3: "db_call_ok worker0 (Suc (db_calls worker0))"
    by (simp add: worker0_def db_call_ok_def)
  have a1: "snd (db_oracle worker0 (db_calls worker0)) = True"
    and a2: "snd (db_oracle worker0 (Suc (db_calls worker0))) = True"
    by (simp_all add: worker0_def)
  from C7_upsert [OF h1 h2 h3, of 10 "''t1''" "[1]" 20 "[2]"]
  obtain w1 w2 where
    "store_embedding 10 ''t1'' [1] worker0 = (Inr (snd (db_oracle worker0 (db_calls worker0))), w1)"
    "store_embedding 20 ''t1'' [2] w1 = (Inr (snd (db_oracle worker0 (Suc (db_calls worker0)))), w2)"
    "snd (db_oracle worker0 (Suc (db_calls worker0))) \<longrightarrow>
       filter (\<lambda>r. track_id r = ''t1'') (track_embeddings w2)
         = [\<lparr>track_id = ''t1'', embedding = [2], model_version = MODEL_VERSION, analyzed_at = 20\<rparr>]"
    by blast
  with a1 a2 have accepted: "\<exists>w1 w2. store_embedding 10 ''t1'' [1] worker0 = (Inr True, w1)
        \<and> store_embedding 20 ''t1'' [2] w1 = (Inr True, w2)
        \<and> filter (\<lambda>r. track_id r = ''t1'') (track_embeddings w2)
            = [\<lparr>track_id = ''t1'', embedding = [2], model_version = MODEL_VERSION,
                analyzed_at = 20\<rparr>]"
    by auto
  have g1: "distinct (map track_id (track_embeddings worker_reject))"
    by (simp add: worker_reject_def worker0_def)
  have g2: "db_call_ok worker_reject (db_calls worker_reject)"
    by (simp add: worker_reject_def worker0_def db_call_ok_def)
  have g3: "db_call_ok worker_reject (Suc (db_calls worker_reject))"
    by (simp add: worker_reject_def worker0_def db_call_ok_def)
  have b1: "snd (db_oracle worker_reject (db_calls worker_reject)) = True"
    and b2: "snd (db_oracle worker_reject (Suc (db_calls worker_reject))) = False"
    by (simp_all add: worker_reject_def worker0_def)
  from C7_upsert [OF g1 g2 g3, of 10 "''t1''" "[1]" 20 "[2]"]
  obtain u1 u2 where
    "store_embedding 10 ''t1'' [1] worker_reject
       = (Inr (snd (db_oracle worker_reject (db_calls worker_reject))), u1)"
    "store_embedding 20 ''t1'' [2] u1
       = (Inr (snd (db_oracle worker_reject (Suc (db_calls worker_reject)))), u2)"
    "\<not> snd (db_oracle worker_reject (Suc (db_calls worker_reject))) \<longrightarrow>
       track_embeddings u2 = track_embeddings u1"
    by blast
  with b1 b2 have rejected: "\<exists>w1 w2. store_embedding 10 ''t1'' [1] worker_reject = (Inr True, w1)
        \<and> store_embedding 20 ''t1'' [2] w1 = (Inr False, w2)
        \<and> track_embeddings w2 = track_embeddings w1"
    by auto
  from h1 h2 h3 accepted g2 g3 rejected show ?thesis
    by blast
qed

section \<open>C8: the worker loop\<close>

text \<open>
  When every \<^verbatim>\<open>reconnect()\<close> of the handler succeeds, no exception leaves the loop,
  and the loop stops exactly when the stop flag is seen.
\<close>

lemma worker_loop_survives:
  assumes "\<forall>it \<in> set its. connect_ok it"
  shows "(\<forall>e. fst (worker_loop ev its w) \<noteq> Crashed e)
     \<and> (fst (worker_loop ev its w) = Stopped \<longleftrightarrow> (\<exists>it \<in> set its. stop_set it))"
  using assms
  by (induction its arbitrary: w)
     (auto simp: reconnect_def split: prod.splits sum.splits)

text \<open>
  C8 does not hold of the loop as it is written. The handler of \<^verbatim>\<open>psycopg2.Error\<close>
  calls \<^verbatim>\<open>self.db.reconnect()\<close> unguarded; when the database is still unreachable,
  \<^verbatim>\<open>connect()\<close> raises inside the handler and the exception leaves the
  \<^verbatim>\<open>while\<close>. Below, the stop flag is never set and a second iteration is
  available, yet the loop ends in the first one, without the pause.
\<close>

theorem C8_outage_ends_loop:
  "map stop_set outage_run = [False, False]
   \<and> fst (process_job env0 (popped (hd outage_run)) worker_down)
       = Inl (DatabaseError ''could not connect to server'')
   \<and> fst (worker_loop env0 outage_run worker_down)
       = Crashed (DatabaseError ''could not connect to server'')
   \<and> trace (snd (worker_loop env0 outage_run worker_down))
       = [Log INFO ''Worker {} processing track: {}'' [N 0, S ''t1''],
          Log INFO ''Reconnecting to database...'' [],
          Log ERROR ''Worker {} database error: {}''
            [N 0, E (DatabaseError ''could not connect to server'')],
          PrintExc,
          Log INFO ''Reconnecting to database...'' []]"
  by (simp add: outage_run_def worker_down_def worker0_def env0_def job1_def
        process_job_def no_track_id_def job_track_id_def update_track_status_def
        get_cursor_def reconnect_def emit_def Let_def)

end
